theory Spec2Isabelle
  imports Main "HOL-Library.Word"
begin

text \<open>
  A shallow embedding of the client-side script of the army builder: the module variables
  \<open>armyList\<close> and \<open>favorites\<close>, the handlers that change them, the points total,
  and what the script reads from and writes to \<open>localStorage\<close>. The JavaScript
  built-ins the handlers rely on (\<open>parseInt\<close>, property access on plain objects,
  \<open>JSON.stringify\<close>, \<open>JSON.parse\<close>, string conversion) are defined first, then the
  state and the handlers, then the properties. Fetching and rendering the catalogue is
  outside: a handler receives the \<open>dataset\<close> of the card that was clicked.
\<close>

section \<open>JavaScript values used by the army builder\<close>

text \<open>
  A JavaScript string is a sequence of 16-bit code units. Literals of the source are
  written with \<open>asc\<close>, which maps an ASCII literal to its code units.
\<close>

type_synonym jschar = "16 word"
type_synonym jsstring = "jschar list"

definition asc :: "string \<Rightarrow> jsstring" where
  "asc s = map of_char s"

text \<open>
  The only Numbers the program computes come from \<open>parseInt\<close> and from \<open>+\<close> on such
  results: \<open>NaN\<close>, the two infinities, and doubles whose value is an integer.
  \<open>Fin n\<close> is the double of value \<open>n\<close>; the sign of zero is not tracked
  (\<open>-0 === 0\<close>). \<open>toNumber\<close> is the double nearest to an integer: an integer below
  \<open>2^53\<close> in magnitude is a double, a larger one is rounded to 53 significant bits, a tie
  going to the even neighbour, and from \<open>2^1024\<close> on the result is an infinity.
\<close>

datatype jsnum = NaN | Fin int | PosInf | NegInf

text \<open>\<open>Number.MAX_SAFE_INTEGER\<close>.\<close>

definition maxSafe :: int where
  "maxSafe = 9007199254740991"

function bitLength :: "int \<Rightarrow> nat" where
  "bitLength n = (if n \<le> 0 then 0 else Suc (bitLength (n div 2)))"
  by pat_completeness auto
termination
  by (relation "measure nat") auto

definition roundToDouble :: "int \<Rightarrow> int" where
  "roundToDouble m =
     (if m < 2 ^ 53 then m
      else (let e = bitLength m - 53; q = m div 2 ^ e; r = m mod 2 ^ e; half = 2 ^ (e - 1)
            in (if half < r \<or> (r = half \<and> odd q) then q + 1 else q) * 2 ^ e))"

definition toNumber :: "int \<Rightarrow> jsnum" where
  "toNumber n =
     (let m = roundToDouble \<bar>n\<bar>
      in if 2 ^ 1024 \<le> m then (if n < 0 then NegInf else PosInf)
         else Fin (if n < 0 then - m else m))"

text \<open>The operator \<open>+\<close> on two Numbers: the exact sum, rounded.\<close>

fun jsadd :: "jsnum \<Rightarrow> jsnum \<Rightarrow> jsnum" where
  "jsadd (Fin a) (Fin b) = toNumber (a + b)"
| "jsadd NaN _ = NaN"
| "jsadd _ NaN = NaN"
| "jsadd PosInf NegInf = NaN"
| "jsadd NegInf PosInf = NaN"
| "jsadd PosInf _ = PosInf"
| "jsadd _ PosInf = PosInf"
| "jsadd NegInf _ = NegInf"
| "jsadd _ NegInf = NegInf"

subsection \<open>Number to string\<close>

definition digitChar :: "int \<Rightarrow> jschar" where
  "digitChar d = of_int (48 + d)"

function decimalDigits :: "int \<Rightarrow> jsstring" where
  "decimalDigits n = (if n < 10 then [digitChar n] else decimalDigits (n div 10) @ [digitChar (n mod 10)])"
  by pat_completeness auto
termination
  by (relation "measure nat") auto

definition intToString :: "int \<Rightarrow> jsstring" where
  "intToString n = (if n < 0 then 0x2D # decimalDigits (- n) else decimalDigits n)"

text \<open>
  A Number prints as the decimal with the fewest significant digits that still denotes it.
  \<open>shortestWith k x\<close> is the decimal with at most \<open>k\<close> significant digits whose nearest
  double is \<open>x\<close>, if there is one (of two, the one closer to \<open>x\<close>); seventeen digits
  always suffice. Below \<open>2^53\<close> every digit of the integer is needed. A decimal of up
  to 21 digits prints in full, a longer one in exponent notation.
\<close>

definition shortestWith :: "nat \<Rightarrow> int \<Rightarrow> int option" where
  "shortestWith k x =
     (let d = length (decimalDigits x)
      in if d \<le> k then (if roundToDouble x = x then Some x else None)
         else (let u = 10 ^ (d - k); lo = x div u * u; hi = lo + u
               in if roundToDouble lo = x \<and> roundToDouble hi = x
                  then Some (if x - lo < hi - x \<or> (x - lo = hi - x \<and> even (x div u)) then lo else hi)
                  else if roundToDouble lo = x then Some lo
                  else if roundToDouble hi = x then Some hi
                  else None))"

definition shortestDecimal :: "int \<Rightarrow> int" where
  "shortestDecimal x =
     (case List.map_filter (\<lambda>k. shortestWith k x) [1..<18] of v # _ \<Rightarrow> v | [] \<Rightarrow> x)"

definition stripZeros :: "jsstring \<Rightarrow> jsstring" where
  "stripZeros ds = rev (dropWhile (\<lambda>c. c = 0x30) (rev ds))"

definition magnitudeToString :: "int \<Rightarrow> jsstring" where
  "magnitudeToString x =
     (if x < 2 ^ 53 then decimalDigits x
      else (let ds = decimalDigits (shortestDecimal x); n = length ds; s = stripZeros ds
            in if n \<le> 21 then ds
               else (if length s = 1 then s else hd s # 0x2E # tl s) @ asc ''e+'' @ decimalDigits (int n - 1)))"

fun NumberToString :: "jsnum \<Rightarrow> jsstring" where
  "NumberToString NaN = asc ''NaN''"
| "NumberToString PosInf = asc ''Infinity''"
| "NumberToString NegInf = asc ''-Infinity''"
| "NumberToString (Fin n) = (if n < 0 then 0x2D # magnitudeToString (- n) else magnitudeToString n)"

subsection \<open>parseInt(string, 10)\<close>

text \<open>
  \<open>parseInt\<close> converts its argument to a string (\<open>undefined\<close> becomes \<open>"undefined"\<close>),
  skips leading white space, reads an optional sign and then the longest run of decimal
  digits. No digit at all gives \<open>NaN\<close>; otherwise the result is the double nearest
  to the integer read. The radix is always 10 in the source, so no \<open>0x\<close> prefix is
  recognised.
\<close>

definition isStrWhiteSpaceChar :: "jschar \<Rightarrow> bool" where
  "isStrWhiteSpaceChar c \<longleftrightarrow>
     c \<in> {0x09, 0x0A, 0x0B, 0x0C, 0x0D, 0x20, 0xA0, 0x1680, 0x2028, 0x2029, 0x202F, 0x205F,
          0x3000, 0xFEFF}
     \<or> (0x2000 \<le> c \<and> c \<le> 0x200A)"

definition isDigit :: "jschar \<Rightarrow> bool" where
  "isDigit c \<longleftrightarrow> 0x30 \<le> c \<and> c \<le> 0x39"

definition digitsValue :: "jsstring \<Rightarrow> int" where
  "digitsValue Z = foldl (\<lambda>a c. 10 * a + (uint c - 48)) 0 Z"

definition ToString_opt :: "jsstring option \<Rightarrow> jsstring" where
  "ToString_opt x = (case x of None \<Rightarrow> asc ''undefined'' | Some s \<Rightarrow> s)"

definition parseInt :: "jsstring option \<Rightarrow> jsnum" where
  "parseInt string =
     (let S = dropWhile isStrWhiteSpaceChar (ToString_opt string);
          sign = (case S of c # _ \<Rightarrow> if c = 0x2D then - 1 else 1 | [] \<Rightarrow> 1);
          S' = (case S of c # cs \<Rightarrow> if c = 0x2B \<or> c = 0x2D then cs else S | [] \<Rightarrow> []);
          Z = takeWhile isDigit S'
      in if Z = [] then NaN else toNumber (sign * digitsValue Z))"

subsection \<open>Values and objects\<close>

text \<open>
  The values that \<open>JSON.parse\<close> returns and the program builds. An object is the list
  of its own properties in the order \<open>Object.values\<close> and \<open>JSON.stringify\<close>
  enumerate them. \<open>Numeral s\<close> is a Number that a JSON text wrote with a fraction or an
  exponent; the program never computes with such a value, it only tests and prints it, and
  the numeral is kept as written: it counts as zero when the double nearest to it is zero
  (its value is at most \<open>2^-1075\<close> in magnitude), and it prints as it was read, where
  JavaScript prints the shortest numeral of the same double. Only a stored text that this
  program did not write contains one.
\<close>

datatype jsval =
    Undefined
  | Null
  | Bool bool
  | Num jsnum
  | Numeral jsstring
  | Str jsstring
  | Arr "jsval list"
  | Obj "(jsstring \<times> jsval) list"

text \<open>
  Whether the numeral \<open>-? ip (. fp)? ([eE] [+-]? ed)?\<close> denotes a value that does not
  round to zero: its digits \<open>m\<close> and decimal exponent \<open>e\<close> satisfy
  \<open>m * 10^e > 2^-1075\<close>.
\<close>

definition numeralNonzero :: "jsstring \<Rightarrow> bool" where
  "numeralNonzero s =
     (let body = (case s of c # r \<Rightarrow> if c = 0x2D then r else s | [] \<Rightarrow> s);
          ip = takeWhile isDigit body;
          r1 = drop (length ip) body;
          fp = (case r1 of c # r \<Rightarrow> if c = 0x2E then takeWhile isDigit r else [] | [] \<Rightarrow> []);
          r2 = (if fp = [] then r1 else drop (Suc (length fp)) r1);
          ex = (case r2 of c # r \<Rightarrow> r | [] \<Rightarrow> []);
          eneg = (case ex of c # _ \<Rightarrow> c = 0x2D | [] \<Rightarrow> False);
          ed = (case ex of c # r \<Rightarrow> if c = 0x2B \<or> c = 0x2D then r else ex | [] \<Rightarrow> []);
          e = (if eneg then - 1 else 1) * digitsValue ed - int (length fp);
          m = digitsValue (ip @ fp)
      in m \<noteq> 0 \<and> (0 \<le> e \<or> 10 ^ nat (- e) < m * 2 ^ 1075))"

fun truthy :: "jsval \<Rightarrow> bool" where
  "truthy Undefined = False"
| "truthy Null = False"
| "truthy (Bool b) = b"
| "truthy (Num NaN) = False"
| "truthy (Num (Fin n)) = (n \<noteq> 0)"
| "truthy (Num PosInf) = True"
| "truthy (Num NegInf) = True"
| "truthy (Numeral s) = numeralNonzero s"
| "truthy (Str s) = (s \<noteq> [])"
| "truthy (Arr _) = True"
| "truthy (Obj _) = True"

text \<open>
  Own property keys are enumerated with the array indices first, in ascending order, and
  then the other keys in the order of their creation. An array index is the canonical
  decimal form of an integer below \<open>2^32 - 1\<close>.
\<close>

definition arrayIndex :: "jsstring \<Rightarrow> int option" where
  "arrayIndex k =
     (if k \<noteq> [] \<and> list_all isDigit k \<and> (length k = 1 \<or> hd k \<noteq> 0x30) \<and> digitsValue k < 4294967295
      then Some (digitsValue k) else None)"

fun insertIndexKey :: "int \<Rightarrow> jsstring \<Rightarrow> jsval \<Rightarrow> (jsstring \<times> jsval) list \<Rightarrow> (jsstring \<times> jsval) list" where
  "insertIndexKey i k v [] = [(k, v)]"
| "insertIndexKey i k v ((k', v') # ps) =
     (case arrayIndex k' of
        Some j \<Rightarrow> if j < i then (k', v') # insertIndexKey i k v ps else (k, v) # (k', v') # ps
      | None \<Rightarrow> (k, v) # (k', v') # ps)"

text \<open>\<open>o[k] = v\<close> on own data properties: an existing key keeps its place.\<close>

definition setProperty :: "jsstring \<Rightarrow> jsval \<Rightarrow> (jsstring \<times> jsval) list \<Rightarrow> (jsstring \<times> jsval) list" where
  "setProperty k v ps =
     (if k \<in> fst ` set ps then map (\<lambda>(k', v'). if k' = k then (k', v) else (k', v')) ps
      else case arrayIndex k of Some i \<Rightarrow> insertIndexKey i k v ps | None \<Rightarrow> ps @ [(k, v)])"

text \<open>\<open>delete o[k]\<close>.\<close>

definition deleteProperty :: "jsstring \<Rightarrow> (jsstring \<times> jsval) list \<Rightarrow> (jsstring \<times> jsval) list" where
  "deleteProperty k ps = filter (\<lambda>(k', v'). k' \<noteq> k) ps"

text \<open>
  A plain object inherits the properties of \<open>Object.prototype\<close>. Each of them reads as
  a function (or, for \<open>__proto__\<close>, as the prototype object): a truthy value.
\<close>

definition ObjectPrototype_names :: "jsstring list" where
  "ObjectPrototype_names = map asc
     [''constructor'', ''__defineGetter__'', ''__defineSetter__'', ''hasOwnProperty'',
      ''__lookupGetter__'', ''__lookupSetter__'', ''isPrototypeOf'', ''propertyIsEnumerable'',
      ''toString'', ''valueOf'', ''__proto__'', ''toLocaleString'']"

text \<open>The truth value of \<open>o[k]\<close> for a plain object \<open>o\<close>, as an \<open>if\<close> tests it.\<close>

definition propertyTruthy :: "(jsstring \<times> jsval) list \<Rightarrow> jsstring \<Rightarrow> bool" where
  "propertyTruthy ps k =
     (case map_of ps k of Some v \<Rightarrow> truthy v | None \<Rightarrow> k \<in> set ObjectPrototype_names)"

subsection \<open>JSON.stringify\<close>

definition hexDigit :: "nat \<Rightarrow> jschar" where
  "hexDigit d = (if d < 10 then of_nat (48 + d) else of_nat (87 + d))"

definition UnicodeEscape :: "jschar \<Rightarrow> jsstring" where
  "UnicodeEscape c =
     (let n = unat c
      in [0x5C, 0x75, hexDigit (n div 4096), hexDigit (n div 256 mod 16), hexDigit (n div 16 mod 16),
          hexDigit (n mod 16)])"

definition isLeadSurrogate :: "jschar \<Rightarrow> bool" where
  "isLeadSurrogate c \<longleftrightarrow> 0xD800 \<le> c \<and> c \<le> 0xDBFF"

definition isTrailSurrogate :: "jschar \<Rightarrow> bool" where
  "isTrailSurrogate c \<longleftrightarrow> 0xDC00 \<le> c \<and> c \<le> 0xDFFF"

definition quoteUnit :: "jschar \<Rightarrow> jsstring" where
  "quoteUnit c =
     (if c = 0x08 then [0x5C, 0x62]
      else if c = 0x09 then [0x5C, 0x74]
      else if c = 0x0A then [0x5C, 0x6E]
      else if c = 0x0C then [0x5C, 0x66]
      else if c = 0x0D then [0x5C, 0x72]
      else if c = 0x22 then [0x5C, 0x22]
      else if c = 0x5C then [0x5C, 0x5C]
      else if c < 0x20 \<or> isLeadSurrogate c \<or> isTrailSurrogate c then UnicodeEscape c
      else [c])"

text \<open>A surrogate pair is copied; a lone surrogate is escaped.\<close>

fun quoteUnits :: "jsstring \<Rightarrow> jsstring" where
  "quoteUnits [] = []"
| "quoteUnits [c] = quoteUnit c"
| "quoteUnits (c # d # cs) =
     (if isLeadSurrogate c \<and> isTrailSurrogate d then c # d # quoteUnits cs
      else quoteUnit c @ quoteUnits (d # cs))"

definition QuoteJSONString :: "jsstring \<Rightarrow> jsstring" where
  "QuoteJSONString s = 0x22 # quoteUnits s @ [0x22]"

fun joinComma :: "jsstring list \<Rightarrow> jsstring" where
  "joinComma [] = []"
| "joinComma [x] = x"
| "joinComma (x # y # ys) = x @ 0x2C # joinComma (y # ys)"

text \<open>
  \<open>JSON.stringify(v)\<close> with no replacer and no indentation. \<open>None\<close> is the result
  \<open>undefined\<close>. In an array \<open>undefined\<close> prints as \<open>null\<close>; in an object the
  property is left out. \<open>NaN\<close> and the infinities print as \<open>null\<close>.
\<close>

fun JSON_stringify :: "jsval \<Rightarrow> jsstring option"
  and serializeElements :: "jsval list \<Rightarrow> jsstring list"
  and serializeMembers :: "(jsstring \<times> jsval) list \<Rightarrow> jsstring list" where
  "JSON_stringify Undefined = None"
| "JSON_stringify Null = Some (asc ''null'')"
| "JSON_stringify (Bool b) = Some (if b then asc ''true'' else asc ''false'')"
| "JSON_stringify (Num NaN) = Some (asc ''null'')"
| "JSON_stringify (Num PosInf) = Some (asc ''null'')"
| "JSON_stringify (Num NegInf) = Some (asc ''null'')"
| "JSON_stringify (Num (Fin n)) = Some (NumberToString (Fin n))"
| "JSON_stringify (Numeral s) = Some s"
| "JSON_stringify (Str s) = Some (QuoteJSONString s)"
| "JSON_stringify (Arr vs) = Some (0x5B # joinComma (serializeElements vs) @ [0x5D])"
| "JSON_stringify (Obj ps) = Some (0x7B # joinComma (serializeMembers ps) @ [0x7D])"
| "serializeElements [] = []"
| "serializeElements (v # vs) =
     (case JSON_stringify v of None \<Rightarrow> asc ''null'' | Some t \<Rightarrow> t) # serializeElements vs"
| "serializeMembers [] = []"
| "serializeMembers ((k, v) # ps) =
     (case JSON_stringify v of
        None \<Rightarrow> serializeMembers ps
      | Some t \<Rightarrow> (QuoteJSONString k @ 0x3A # t) # serializeMembers ps)"

subsection \<open>Conversion to a string\<close>

text \<open>
  \<open>ToString\<close> of a value, as the \<open>value\<close> setter of an input element applies it.
  \<open>None\<close> is a \<open>TypeError\<close>: an object whose own \<open>toString\<close> property hides the
  inherited method cannot be converted (a parsed JSON value is never callable, and the
  inherited \<open>valueOf\<close> returns the object). An array joins its elements with commas.
  What an input element of a special type does with a string it is given (a number input
  keeps only a number) is not followed.
\<close>

fun ToString :: "jsval \<Rightarrow> jsstring option"
  and joinElements :: "jsval list \<Rightarrow> jsstring list option" where
  "ToString Undefined = Some (asc ''undefined'')"
| "ToString Null = Some (asc ''null'')"
| "ToString (Bool b) = Some (if b then asc ''true'' else asc ''false'')"
| "ToString (Num n) = Some (NumberToString n)"
| "ToString (Numeral s) = Some s"
| "ToString (Str s) = Some s"
| "ToString (Arr vs) = map_option joinComma (joinElements vs)"
| "ToString (Obj ps) =
     (if asc ''toString'' \<in> fst ` set ps then None else Some (asc ''[object Object]''))"
| "joinElements [] = Some []"
| "joinElements (v # vs) =
     (case (if v = Undefined \<or> v = Null then Some [] else ToString v) of
        None \<Rightarrow> None
      | Some t \<Rightarrow> map_option ((#) t) (joinElements vs))"

subsection \<open>JSON.parse\<close>

text \<open>
  \<open>JSON.parse\<close> as a recursive-descent parser over the code units of the text. Each
  function returns the value read and the rest of the input, or \<open>None\<close> where the text
  is not JSON. Members are added to an object with \<open>setProperty\<close>, so a repeated key
  keeps its first place and its last value.
\<close>

definition isJSONWhitespace :: "jschar \<Rightarrow> bool" where
  "isJSONWhitespace c \<longleftrightarrow> c = 0x20 \<or> c = 0x09 \<or> c = 0x0A \<or> c = 0x0D"

definition skipWs :: "jsstring \<Rightarrow> jsstring" where
  "skipWs cs = dropWhile isJSONWhitespace cs"

definition hexValue :: "jschar \<Rightarrow> nat option" where
  "hexValue c =
     (if 0x30 \<le> c \<and> c \<le> 0x39 then Some (unat c - 48)
      else if 0x41 \<le> c \<and> c \<le> 0x46 then Some (unat c - 55)
      else if 0x61 \<le> c \<and> c \<le> 0x66 then Some (unat c - 87)
      else None)"

definition hex4 :: "jschar \<Rightarrow> jschar \<Rightarrow> jschar \<Rightarrow> jschar \<Rightarrow> jschar option" where
  "hex4 a b c d =
     (case (hexValue a, hexValue b, hexValue c, hexValue d) of
        (Some x, Some y, Some z, Some w) \<Rightarrow> Some (of_nat (((x * 16 + y) * 16 + z) * 16 + w))
      | _ \<Rightarrow> None)"

definition unescape :: "jschar \<Rightarrow> jschar option" where
  "unescape e =
     (if e = 0x22 then Some 0x22
      else if e = 0x5C then Some 0x5C
      else if e = 0x2F then Some 0x2F
      else if e = 0x62 then Some 0x08
      else if e = 0x66 then Some 0x0C
      else if e = 0x6E then Some 0x0A
      else if e = 0x72 then Some 0x0D
      else if e = 0x74 then Some 0x09
      else None)"

definition consUnit :: "jschar \<Rightarrow> (jsstring \<times> jsstring) option \<Rightarrow> (jsstring \<times> jsstring) option" where
  "consUnit u res = (case res of None \<Rightarrow> None | Some (s, r) \<Rightarrow> Some (u # s, r))"

fun parseStringBody :: "jsstring \<Rightarrow> (jsstring \<times> jsstring) option" where
  "parseStringBody [] = None"
| "parseStringBody (c # cs) =
     (if c = 0x22 then Some ([], cs)
      else if c = 0x5C then
        (case cs of
           [] \<Rightarrow> None
         | e # cs1 \<Rightarrow>
             if e = 0x75 then
               (case cs1 of
                  h1 # h2 # h3 # h4 # cs2 \<Rightarrow>
                    (case hex4 h1 h2 h3 h4 of
                       None \<Rightarrow> None
                     | Some u \<Rightarrow> consUnit u (parseStringBody cs2))
                | _ \<Rightarrow> None)
             else
               (case unescape e of
                  None \<Rightarrow> None
                | Some u \<Rightarrow> consUnit u (parseStringBody cs1)))
      else if c < 0x20 then None
      else consUnit c (parseStringBody cs))"

text \<open>A number token: \<open>-? (0 | [1-9][0-9]*) (. [0-9]+)? ([eE] [+-]? [0-9]+)?\<close>.\<close>

definition lexNumber :: "jsstring \<Rightarrow> (jsval \<times> jsstring) option" where
  "lexNumber cs =
     (let neg = (case cs of c # _ \<Rightarrow> c = 0x2D | [] \<Rightarrow> False);
          r0 = (if neg then tl cs else cs);
          ds = (case r0 of c # _ \<Rightarrow> if c = 0x30 then [c] else takeWhile isDigit r0 | [] \<Rightarrow> []);
          r1 = drop (length ds) r0;
          fs = (case r1 of c # r \<Rightarrow> if c = 0x2E then c # takeWhile isDigit r else [] | [] \<Rightarrow> []);
          r2 = drop (length fs) r1;
          sg = (case r2 of
                  c # d # _ \<Rightarrow> if (c = 0x65 \<or> c = 0x45) \<and> (d = 0x2B \<or> d = 0x2D) then [c, d]
                               else if c = 0x65 \<or> c = 0x45 then [c] else []
                | [c] \<Rightarrow> if c = 0x65 \<or> c = 0x45 then [c] else []
                | [] \<Rightarrow> []);
          es = (if sg = [] then [] else sg @ takeWhile isDigit (drop (length sg) r2));
          r3 = drop (length es) r2
      in if ds = [] \<or> length fs = 1 \<or> (sg \<noteq> [] \<and> length es = length sg) then None
         else if fs = [] \<and> es = [] then Some (Num (toNumber ((if neg then - 1 else 1) * digitsValue ds)), r3)
         else Some (Numeral (take (length cs - length r3) cs), r3))"

definition expect :: "jsstring \<Rightarrow> jsval \<Rightarrow> jsstring \<Rightarrow> (jsval \<times> jsstring) option" where
  "expect w v cs = (if take (length w) cs = w then Some (v, drop (length w) cs) else None)"

function parseValue :: "jsstring \<Rightarrow> (jsval \<times> jsstring) option"
  and parseElements :: "jsval list \<Rightarrow> jsstring \<Rightarrow> (jsval \<times> jsstring) option"
  and parseMembers :: "(jsstring \<times> jsval) list \<Rightarrow> jsstring \<Rightarrow> (jsval \<times> jsstring) option" where
  "parseValue cs =
     (case skipWs cs of
        [] \<Rightarrow> None
      | c # r \<Rightarrow>
          if c = 0x7B then
            (case skipWs r of
               [] \<Rightarrow> None
             | d # r' \<Rightarrow> if d = 0x7D then Some (Obj [], r') else parseMembers [] r)
          else if c = 0x5B then
            (case skipWs r of
               [] \<Rightarrow> None
             | d # r' \<Rightarrow> if d = 0x5D then Some (Arr [], r') else parseElements [] r)
          else if c = 0x22 then
            (case parseStringBody r of None \<Rightarrow> None | Some (s, r') \<Rightarrow> Some (Str s, r'))
          else if c = 0x74 then expect (asc ''true'') (Bool True) (c # r)
          else if c = 0x66 then expect (asc ''false'') (Bool False) (c # r)
          else if c = 0x6E then expect (asc ''null'') Null (c # r)
          else lexNumber (c # r))"
| "parseElements acc cs =
     (case parseValue cs of
        None \<Rightarrow> None
      | Some (v, r) \<Rightarrow>
          if length r < length cs then
            (case skipWs r of
               [] \<Rightarrow> None
             | d # r' \<Rightarrow>
                 if d = 0x2C then parseElements (acc @ [v]) r'
                 else if d = 0x5D then Some (Arr (acc @ [v]), r')
                 else None)
          else None)"
| "parseMembers acc cs =
     (case skipWs cs of
        [] \<Rightarrow> None
      | q # r0 \<Rightarrow>
          if q = 0x22 then
            (case parseStringBody r0 of
               None \<Rightarrow> None
             | Some (k, r1) \<Rightarrow>
                 if length r1 < length r0 then
                   (case skipWs r1 of
                      [] \<Rightarrow> None
                    | colon # r2 \<Rightarrow>
                        if colon = 0x3A then
                          (case parseValue r2 of
                             None \<Rightarrow> None
                           | Some (v, r3) \<Rightarrow>
                               if length r3 < length r2 then
                                 (case skipWs r3 of
                                    [] \<Rightarrow> None
                                  | d # r4 \<Rightarrow>
                                      if d = 0x2C then parseMembers (setProperty k v acc) r4
                                      else if d = 0x7D then Some (Obj (setProperty k v acc), r4)
                                      else None)
                               else None)
                        else None)
                 else None)
          else None)"
  by pat_completeness auto

termination
proof -
  have shorter: "length r < length cs" if "skipWs cs = c # r" for cs r :: jsstring and c
    using that length_dropWhile_le [of isJSONWhitespace cs] by (simp add: skipWs_def)
  show ?thesis
    by (relation "measures
          [\<lambda>x. case x of Inl cs \<Rightarrow> length cs | Inr (Inl (a, cs)) \<Rightarrow> length cs | Inr (Inr (a, cs)) \<Rightarrow> length cs,
           \<lambda>x. case x of Inl cs \<Rightarrow> 0 | Inr y \<Rightarrow> 1]")
       (auto dest!: shorter)
qed

datatype js_error = SyntaxError | TypeError

definition JSON_parse :: "jsstring \<Rightarrow> js_error + jsval" where
  "JSON_parse text =
     (case parseValue text of
        None \<Rightarrow> Inl SyntaxError
      | Some (v, r) \<Rightarrow> if skipWs r = [] then Inr v else Inl SyntaxError)"

section \<open>Program state\<close>

text \<open>
  An entry of \<open>armyList\<close> is the object \<open>{ id, name, points }\<close> built by
  \<open>addUnitToArmy\<close>. Its \<open>id\<close> and \<open>name\<close> are whatever the card's \<open>dataset\<close>
  held: a string, or \<open>undefined\<close> (\<open>None\<close>) when the attribute is missing.
\<close>

record army_unit =
  unit_id :: "jsstring option"
  unit_name :: "jsstring option"
  unit_points :: jsnum

text \<open>The \<open>dataset\<close> of a \<open>.unit-card\<close> element, as the click handler reads it.\<close>

record dataset =
  unitId :: "jsstring option"
  unitName :: "jsstring option"
  unitPoints :: "jsstring option"

text \<open>
  The module variables \<open>armyList\<close> and \<open>favorites\<close>, the browser's \<open>localStorage\<close>
  (\<open>getItem\<close> of a missing key is \<open>null\<close>, here \<open>None\<close>), and the parts of the
  page the handlers write: \<open>armyListContainer\<close> and \<open>favoritesContainer\<close> stand for
  the cards shown (a favorite card by the three texts it interpolates),
  \<open>pointsTotalElement\<close> and \<open>crusadeStatusElement\<close> for a text content, the three
  inputs for their \<open>value\<close>, and \<open>activeTab\<close> for the tab that \<open>showTab\<close> made
  visible. The page is taken to contain every element the script looks up, and
  \<open>setItem\<close> to store what it is given (no quota is reached).
\<close>

record state =
  armyList :: "army_unit list"
  favorites :: jsval
  localStorage :: "jsstring \<rightharpoonup> jsstring"
  armyListContainer :: "army_unit list"
  pointsTotalElement :: jsstring
  favoritesContainer :: "(jsstring \<times> jsstring \<times> jsstring) list"
  crusadeBattleHonorsInput :: jsstring
  crusadeXpInput :: jsstring
  crusadeRpInput :: jsstring
  crusadeStatusElement :: jsstring
  activeTab :: "jsstring option"

text \<open>
  How a handler ends: normally, or with an exception that nothing catches. The state
  returned with \<open>Uncaught\<close> holds the writes made before the throw. \<open>Unmodelled\<close>
  marks the one situation this theory does not follow: a favorite click while
  \<open>favorites\<close> holds an array, a string, a number or a boolean, which only a stored
  value written by something else than this program can cause.
\<close>

datatype completion = Normal | Uncaught js_error | Unmodelled

section \<open>The army list\<close>

definition totalPoints :: "army_unit list \<Rightarrow> jsnum" where
  "totalPoints l = foldl (\<lambda>sum unit. jsadd sum (unit_points unit)) (Fin 0) l"

definition updatePointsTotal :: "state \<Rightarrow> state" where
  "updatePointsTotal st = st\<lparr>pointsTotalElement := NumberToString (totalPoints (armyList st))\<rparr>"

definition renderArmyList :: "state \<Rightarrow> state" where
  "renderArmyList st = st\<lparr>armyListContainer := armyList st\<rparr>"

definition addUnitToArmy :: "jsstring option \<Rightarrow> jsstring option \<Rightarrow> jsstring option \<Rightarrow> state \<Rightarrow> state" where
  "addUnitToArmy uId uName uPoints st =
     (let unit = \<lparr>unit_id = uId, unit_name = uName, unit_points = parseInt uPoints\<rparr>;
          st1 = st\<lparr>armyList := armyList st @ [unit]\<rparr>;
          st2 = st1\<lparr>armyListContainer := armyListContainer st1 @ [unit]\<rparr>
      in updatePointsTotal st2)"

text \<open>\<open>Array.prototype.findIndex\<close>: the index of the first match, or \<open>-1\<close>.\<close>

fun findIndex :: "('a \<Rightarrow> bool) \<Rightarrow> 'a list \<Rightarrow> int" where
  "findIndex P [] = - 1"
| "findIndex P (x # xs) =
     (if P x then 0 else (let i = findIndex P xs in if i = - 1 then - 1 else i + 1))"

text \<open>\<open>l.splice(index, 1)\<close> for an index inside the array.\<close>

definition splice1 :: "nat \<Rightarrow> 'a list \<Rightarrow> 'a list" where
  "splice1 index l = take index l @ drop (Suc index) l"

text \<open>
  \<open>removeUnitFromArmy\<close> has no \<open>return\<close> statement: a caller receives
  \<open>undefined\<close>, whether or not an entry was removed.
\<close>

definition removeUnitFromArmy :: "jsstring option \<Rightarrow> state \<Rightarrow> jsval \<times> state" where
  "removeUnitFromArmy uId st =
     (let index = findIndex (\<lambda>unit. unit_id unit = uId) (armyList st)
      in if index > - 1
         then (Undefined,
               updatePointsTotal (renderArmyList (st\<lparr>armyList := splice1 (nat index) (armyList st)\<rparr>)))
         else (Undefined, st))"

text \<open>
  The click handler of an add-to-army button passes the three \<open>dataset\<close> values of the
  card to \<open>addUnitToArmy\<close>.
\<close>

definition addToArmyClick :: "dataset \<Rightarrow> state \<Rightarrow> state" where
  "addToArmyClick unitCard st =
     addUnitToArmy (unitId unitCard) (unitName unitCard) (unitPoints unitCard) st"

text \<open>
  The text that \<open>renderUnitCard\<close> writes into \<open>data-unit-points\<close>: the
  \<open>value\<close> attribute of the entry's \<open>Pts\<close> cost (\<open>null\<close> when the attribute is
  missing), or \<open>N/A\<close> when the entry has no such cost.
\<close>

definition renderUnitCard_unitPoints :: "jsstring option option \<Rightarrow> jsstring" where
  "renderUnitCard_unitPoints cost =
     (case cost of None \<Rightarrow> asc ''N/A'' | Some None \<Rightarrow> asc ''null'' | Some (Some v) \<Rightarrow> v)"

section \<open>Favorites\<close>

definition favoritesKey :: jsstring where
  "favoritesKey = asc ''favorites''"

definition loadFavorites :: "state \<Rightarrow> state" where
  "loadFavorites st =
     (case localStorage st favoritesKey of
        None \<Rightarrow> st
      | Some storedFavorites \<Rightarrow>
          if storedFavorites = [] then st
          else (case JSON_parse storedFavorites of
                  Inr v \<Rightarrow> st\<lparr>favorites := v\<rparr>
                | Inl e \<Rightarrow> st\<lparr>favorites := Obj []\<rparr>))"

text \<open>\<open>setItem\<close> stores the string conversion of its argument.\<close>

definition saveFavorites :: "state \<Rightarrow> state" where
  "saveFavorites st =
     st\<lparr>localStorage := (localStorage st)(favoritesKey \<mapsto> ToString_opt (JSON_stringify (favorites st)))\<rparr>"

text \<open>
  \<open>v.k\<close> for the property names the source reads from parsed values (\<open>id\<close>,
  \<open>name\<close>, \<open>points\<close>, \<open>battleHonors\<close>, \<open>xp\<close>, \<open>rp\<close>): no built-in prototype
  has any of them, and no string or array has one as an own property.
\<close>

definition getProperty :: "jsval \<Rightarrow> jsstring \<Rightarrow> js_error + jsval" where
  "getProperty v k =
     (case v of
        Undefined \<Rightarrow> Inl TypeError
      | Null \<Rightarrow> Inl TypeError
      | Obj ps \<Rightarrow> Inr (case map_of ps k of Some x \<Rightarrow> x | None \<Rightarrow> Undefined)
      | _ \<Rightarrow> Inr Undefined)"

text \<open>\<open>Object.values\<close>.\<close>

definition Object_values :: "jsval \<Rightarrow> js_error + jsval list" where
  "Object_values v =
     (case v of
        Undefined \<Rightarrow> Inl TypeError
      | Null \<Rightarrow> Inl TypeError
      | Obj ps \<Rightarrow> Inr (map snd ps)
      | Arr vs \<Rightarrow> Inr vs
      | Str s \<Rightarrow> Inr (map (\<lambda>c. Str [c]) s)
      | _ \<Rightarrow> Inr [])"

text \<open>The specification's \<open>listFavorites\<close> is the array \<open>renderFavorites\<close> iterates.\<close>

definition listFavorites :: "state \<Rightarrow> js_error + jsval list" where
  "listFavorites st = Object_values (favorites st)"

text \<open>The three texts a favorite card interpolates, in the order the template reads them.\<close>

definition interpolate :: "jsval \<Rightarrow> jsstring \<Rightarrow> js_error + jsstring" where
  "interpolate unit k =
     (case getProperty unit k of
        Inl e \<Rightarrow> Inl e
      | Inr x \<Rightarrow> (case ToString x of None \<Rightarrow> Inl TypeError | Some t \<Rightarrow> Inr t))"

definition favoriteCard :: "jsval \<Rightarrow> js_error + (jsstring \<times> jsstring \<times> jsstring)" where
  "favoriteCard unit =
     (case interpolate unit (asc ''id'') of
        Inl e \<Rightarrow> Inl e
      | Inr i \<Rightarrow>
          (case interpolate unit (asc ''name'') of
             Inl e \<Rightarrow> Inl e
           | Inr n \<Rightarrow>
               (case interpolate unit (asc ''points'') of
                  Inl e \<Rightarrow> Inl e
                | Inr p \<Rightarrow> Inr (i, n, p))))"

fun renderFavoriteCards :: "jsval list \<Rightarrow> state \<Rightarrow> completion \<times> state" where
  "renderFavoriteCards [] st = (Normal, st)"
| "renderFavoriteCards (unit # units) st =
     (case favoriteCard unit of
        Inl e \<Rightarrow> (Uncaught e, st)
      | Inr c \<Rightarrow> renderFavoriteCards units (st\<lparr>favoritesContainer := favoritesContainer st @ [c]\<rparr>))"

definition renderFavorites :: "state \<Rightarrow> completion \<times> state" where
  "renderFavorites st =
     (let st1 = st\<lparr>favoritesContainer := []\<rparr>
      in case listFavorites st1 of
           Inl e \<Rightarrow> (Uncaught e, st1)
         | Inr favoriteUnits \<Rightarrow> renderFavoriteCards favoriteUnits st1)"

text \<open>
  The \<open>dataset\<close> of a card that \<open>renderFavorites\<close> wrote: the card carries
  \<open>data-unit-id\<close> and no other data attribute (the id text is taken to have no
  character that HTML treats specially).
\<close>

definition favoriteCardDataset :: "jsstring \<times> jsstring \<times> jsstring \<Rightarrow> dataset" where
  "favoriteCardDataset c = \<lparr>unitId = Some (fst c), unitName = None, unitPoints = None\<rparr>"

definition optionalString :: "jsstring option \<Rightarrow> jsval" where
  "optionalString x = (case x of None \<Rightarrow> Undefined | Some s \<Rightarrow> Str s)"

text \<open>The object \<open>{ id: unitId, name: unitName, points: parseInt(unitPoints, 10) }\<close>.\<close>

definition favoriteUnit :: "dataset \<Rightarrow> jsval" where
  "favoriteUnit unitCard =
     Obj [(asc ''id'', optionalString (unitId unitCard)),
          (asc ''name'', optionalString (unitName unitCard)),
          (asc ''points'', Num (parseInt (unitPoints unitCard)))]"

text \<open>
  The \<open>if\<close> of the favorite branch on a plain object: the new own properties of
  \<open>favorites\<close>, and whether the button carries the class \<open>favorited\<close> afterwards. The
  property key is the string conversion of \<open>unitId\<close>.
\<close>

definition toggleFavorite :: "dataset \<Rightarrow> (jsstring \<times> jsval) list \<Rightarrow> bool \<times> (jsstring \<times> jsval) list" where
  "toggleFavorite unitCard ps =
     (let k = ToString_opt (unitId unitCard)
      in if propertyTruthy ps k then (False, deleteProperty k ps)
         else (True, setProperty k (favoriteUnit unitCard) ps))"

definition favoriteClick :: "dataset \<Rightarrow> state \<Rightarrow> completion \<times> state" where
  "favoriteClick unitCard st =
     (case favorites st of
        Obj ps \<Rightarrow> (Normal, saveFavorites (st\<lparr>favorites := Obj (snd (toggleFavorite unitCard ps))\<rparr>))
      | Null \<Rightarrow> (Uncaught TypeError, st)
      | Undefined \<Rightarrow> (Uncaught TypeError, st)
      | _ \<Rightarrow> (Unmodelled, st))"

section \<open>Crusade tracker\<close>

definition crusadeDataKey :: jsstring where
  "crusadeDataKey = asc ''crusadeData''"

definition saveCrusadeClick :: "state \<Rightarrow> state" where
  "saveCrusadeClick st =
     (let crusadeData = Obj [(asc ''battleHonors'', Str (crusadeBattleHonorsInput st)),
                             (asc ''xp'', Str (crusadeXpInput st)),
                             (asc ''rp'', Str (crusadeRpInput st))]
      in st\<lparr>localStorage := (localStorage st)(crusadeDataKey \<mapsto> ToString_opt (JSON_stringify crusadeData)),
            crusadeStatusElement := asc ''Crusade progress saved!''\<rparr>)"

text \<open>The timer set by the save handler clears the status text.\<close>

definition statusTimeout :: "state \<Rightarrow> state" where
  "statusTimeout st = st\<lparr>crusadeStatusElement := []\<rparr>"

text \<open>The string that \<open>input.value = crusadeData.k || ''\<close> assigns.\<close>

definition storedField :: "jsval \<Rightarrow> jsstring \<Rightarrow> js_error + jsstring" where
  "storedField crusadeData k =
     (case getProperty crusadeData k of
        Inl e \<Rightarrow> Inl e
      | Inr x \<Rightarrow>
          (case ToString (if truthy x then x else Str []) of
             None \<Rightarrow> Inl TypeError
           | Some t \<Rightarrow> Inr t))"

definition loadCrusadeData :: "state \<Rightarrow> completion \<times> state" where
  "loadCrusadeData st =
     (case localStorage st crusadeDataKey of
        None \<Rightarrow> (Normal, st)
      | Some storedData \<Rightarrow>
          if storedData = [] then (Normal, st)
          else (case JSON_parse storedData of
                  Inl e \<Rightarrow> (Uncaught e, st)
                | Inr crusadeData \<Rightarrow>
                    (case storedField crusadeData (asc ''battleHonors'') of
                       Inl e \<Rightarrow> (Uncaught e, st)
                     | Inr b \<Rightarrow>
                         (let st1 = st\<lparr>crusadeBattleHonorsInput := b\<rparr>
                          in case storedField crusadeData (asc ''xp'') of
                               Inl e \<Rightarrow> (Uncaught e, st1)
                             | Inr x \<Rightarrow>
                                 (let st2 = st1\<lparr>crusadeXpInput := x\<rparr>
                                  in case storedField crusadeData (asc ''rp'') of
                                       Inl e \<Rightarrow> (Uncaught e, st2)
                                     | Inr r \<Rightarrow> (Normal, st2\<lparr>crusadeRpInput := r\<rparr>))))))"

section \<open>Tabs, start-up and events\<close>

definition showTab :: "jsstring \<Rightarrow> state \<Rightarrow> completion \<times> state" where
  "showTab tabId st =
     (let st1 = st\<lparr>activeTab := Some tabId\<rparr>
      in if tabId = asc ''favorites'' then renderFavorites st1 else (Normal, st1))"

text \<open>
  The \<open>DOMContentLoaded\<close> handler. \<open>populateFactionSelect\<close> only starts a fetch and
  writes the faction drop-down, which is not part of \<open>state\<close>.
\<close>

definition onDOMContentLoaded :: "state \<Rightarrow> completion \<times> state" where
  "onDOMContentLoaded st =
     (case loadCrusadeData (loadFavorites st) of
        (Normal, st1) \<Rightarrow> showTab (asc ''battle-forge'') st1
      | (c, st1) \<Rightarrow> (c, st1))"

text \<open>
  What can happen to the page: the handlers the script registers, and the user typing
  into one of the three crusade inputs.
\<close>

datatype event =
    DOMContentLoaded
  | TabClick jsstring
  | AddToArmyClick dataset
  | RemoveFromArmyClick "jsstring option"
  | FavoriteClick dataset
  | SaveCrusadeClick
  | StatusTimeout
  | TypeBattleHonors jsstring
  | TypeXp jsstring
  | TypeRp jsstring

fun handle :: "event \<Rightarrow> state \<Rightarrow> completion \<times> state" where
  "handle DOMContentLoaded st = onDOMContentLoaded st"
| "handle (TabClick tabId) st = showTab tabId st"
| "handle (AddToArmyClick unitCard) st = (Normal, addToArmyClick unitCard st)"
| "handle (RemoveFromArmyClick uId) st = (Normal, snd (removeUnitFromArmy uId st))"
| "handle (FavoriteClick unitCard) st = favoriteClick unitCard st"
| "handle SaveCrusadeClick st = (Normal, saveCrusadeClick st)"
| "handle StatusTimeout st = (Normal, statusTimeout st)"
| "handle (TypeBattleHonors s) st = (Normal, st\<lparr>crusadeBattleHonorsInput := s\<rparr>)"
| "handle (TypeXp s) st = (Normal, st\<lparr>crusadeXpInput := s\<rparr>)"
| "handle (TypeRp s) st = (Normal, st\<lparr>crusadeRpInput := s\<rparr>)"

text \<open>
  A session handles its events one after the other; an uncaught exception ends the
  handler that threw it, and the next event finds the state as that handler left it.
\<close>

fun run :: "event list \<Rightarrow> state \<Rightarrow> state" where
  "run [] st = st"
| "run (e # es) st = run es (snd (handle e st))"

text \<open>
  The state when the script has been evaluated: \<open>armyList = []\<close>, \<open>favorites = {}\<close>,
  the storage as the previous sessions left it, and an empty page.
\<close>

definition initialState :: "(jsstring \<rightharpoonup> jsstring) \<Rightarrow> state" where
  "initialState storage =
     \<lparr>armyList = [], favorites = Obj [], localStorage = storage, armyListContainer = [],
      pointsTotalElement = [], favoritesContainer = [], crusadeBattleHonorsInput = [],
      crusadeXpInput = [], crusadeRpInput = [], crusadeStatusElement = [], activeTab = None\<rparr>"

definition unitCardOf :: "string \<Rightarrow> string \<Rightarrow> string \<Rightarrow> dataset" where
  "unitCardOf i n p = \<lparr>unitId = Some (asc i), unitName = Some (asc n), unitPoints = Some (asc p)\<rparr>"

section \<open>Notions used to state the round trip of the favorites\<close>

text \<open>A code unit that cannot continue a number token.\<close>

definition numberEnd :: "jschar \<Rightarrow> bool" where
  "numberEnd c \<longleftrightarrow> \<not> isDigit c \<and> c \<noteq> 0x2E \<and> c \<noteq> 0x65 \<and> c \<noteq> 0x45"

text \<open>
  The shape of a unit as the favorite branch stores it when the card has an id, a name
  and a points text that parses to a safe integer (of magnitude at most \<open>2^53 - 1\<close>),
  and the text \<open>JSON.stringify\<close> writes for it.
\<close>

fun storedUnit :: "jsval \<Rightarrow> bool" where
  "storedUnit (Obj [(a, Str i), (b, Str n), (c, Num (Fin p))]) =
     (a = asc ''id'' \<and> b = asc ''name'' \<and> c = asc ''points'' \<and> \<bar>p\<bar> \<le> maxSafe)"
| "storedUnit _ = False"

definition unitText :: "jsstring \<Rightarrow> jsstring \<Rightarrow> int \<Rightarrow> jsstring" where
  "unitText i n p =
     0x7B # QuoteJSONString (asc ''id'') @ 0x3A # QuoteJSONString i @ 0x2C #
            QuoteJSONString (asc ''name'') @ 0x3A # QuoteJSONString n @ 0x2C #
            QuoteJSONString (asc ''points'') @ 0x3A # intToString p @ [0x7D]"

text \<open>The object that \<open>JSON.parse\<close> builds from members read in the order \<open>ps\<close>.\<close>

definition rebuild :: "(jsstring \<times> jsval) list \<Rightarrow> (jsstring \<times> jsval) list \<Rightarrow> (jsstring \<times> jsval) list" where
  "rebuild acc ps = foldl (\<lambda>a (k, v). setProperty k v a) acc ps"

text \<open>
  A card with an id, a name and safe integer points, and a favorites object that holds
  stored units under distinct keys.
\<close>

definition fullCard :: "dataset \<Rightarrow> bool" where
  "fullCard unitCard \<longleftrightarrow>
     unitId unitCard \<noteq> None \<and> unitName unitCard \<noteq> None
     \<and> (case parseInt (unitPoints unitCard) of Fin p \<Rightarrow> \<bar>p\<bar> \<le> maxSafe | _ \<Rightarrow> False)"

definition unitsByKey :: "(jsstring \<times> jsval) list \<Rightarrow> bool" where
  "unitsByKey ps \<longleftrightarrow> list_all (\<lambda>(k, v). storedUnit v) ps \<and> distinct (map fst ps)"

section \<open>Properties of the army list\<close>

lemma findIndex_range: "findIndex P xs = - 1 \<or> (0 \<le> findIndex P xs \<and> findIndex P xs < int (length xs))"
  by (induction xs) (auto simp: Let_def)

declare bitLength.simps [simp del] decimalDigits.simps [simp del]

lemma roundToDouble_small: "m < 2 ^ 53 \<Longrightarrow> roundToDouble m = m"
  by (simp add: roundToDouble_def)

lemma toNumber_safe: "\<bar>n\<bar> \<le> maxSafe \<Longrightarrow> toNumber n = Fin n"
proof -
  assume "\<bar>n\<bar> \<le> maxSafe"
  then have small: "\<bar>n\<bar> < 2 ^ 53"
    by (simp add: maxSafe_def)
  have "(2::int) ^ 53 \<le> 2 ^ 1024"
    by (rule power_increasing) simp_all
  with small have "\<not> 2 ^ 1024 \<le> \<bar>n\<bar>"
    by linarith
  with small show ?thesis
    by (simp add: toNumber_def roundToDouble_small Let_def)
qed

lemma magnitudeToString_safe: "m \<le> maxSafe \<Longrightarrow> magnitudeToString m = decimalDigits m"
  by (simp add: magnitudeToString_def maxSafe_def)

lemma NumberToString_safe: "\<bar>n\<bar> \<le> maxSafe \<Longrightarrow> NumberToString (Fin n) = intToString n"
  by (simp add: intToString_def magnitudeToString_safe)

lemma armyList_addToArmyClick:
  "armyList (addToArmyClick c st) =
     armyList st @ [\<lparr>unit_id = unitId c, unit_name = unitName c, unit_points = parseInt (unitPoints c)\<rparr>]"
  by (simp add: addToArmyClick_def addUnitToArmy_def updatePointsTotal_def Let_def)

lemma armyList_run_adds:
  "armyList (run (map AddToArmyClick cards) st) =
     armyList st @ map (\<lambda>c. \<lparr>unit_id = unitId c, unit_name = unitName c, unit_points = parseInt (unitPoints c)\<rparr>) cards"
  by (induction cards arbitrary: st) (simp_all add: armyList_addToArmyClick)

lemma foldl_jsadd_safe:
  "map unit_points l = map Fin ps \<Longrightarrow> \<forall>k \<le> length ps. \<bar>a + sum_list (take k ps)\<bar> \<le> maxSafe \<Longrightarrow>
     foldl (\<lambda>sum unit. jsadd sum (unit_points unit)) (Fin a) l = Fin (a + sum_list ps)"
proof (induction l arbitrary: a ps)
  case Nil
  then show ?case by simp
next
  case (Cons u l)
  then obtain p ps' where ps: "ps = p # ps'" "unit_points u = Fin p" "map unit_points l = map Fin ps'"
    by (cases ps) auto
  from Cons.prems(2) ps(1) have "\<bar>a + sum_list (take (Suc 0) (p # ps'))\<bar> \<le> maxSafe"
    by (metis Suc_leI length_Cons zero_less_Suc)
  then have first: "jsadd (Fin a) (Fin p) = Fin (a + p)"
    by (simp add: toNumber_safe)
  have later: "\<forall>k \<le> length ps'. \<bar>(a + p) + sum_list (take k ps')\<bar> \<le> maxSafe"
  proof (intro allI impI)
    fix k
    assume "k \<le> length ps'"
    then have "Suc k \<le> length ps" using ps(1) by simp
    with Cons.prems(2) have "\<bar>a + sum_list (take (Suc k) ps)\<bar> \<le> maxSafe" by blast
    then show "\<bar>(a + p) + sum_list (take k ps')\<bar> \<le> maxSafe"
      using ps(1) by (simp add: add.assoc)
  qed
  from Cons.IH [OF ps(3) later] ps first show ?case by (simp add: add.assoc)
qed

lemma totalPoints_safe:
  "map unit_points l = map Fin ps \<Longrightarrow> \<forall>k \<le> length ps. \<bar>sum_list (take k ps)\<bar> \<le> maxSafe \<Longrightarrow>
     totalPoints l = Fin (sum_list ps)"
  using foldl_jsadd_safe [of l ps 0] by (simp add: totalPoints_def)

lemma parseInt_digits:
  "parseInt (Some (asc ''100'')) = Fin 100"
  "parseInt (Some (asc ''180'')) = Fin 180"
  "parseInt (Some (asc ''1'')) = Fin 1"
  "parseInt (Some (asc ''9007199254740992'')) = Fin 9007199254740992"
  by code_simp+

lemma parseInt_100: "parseInt (Some (asc ''100'')) = Fin 100"
  by (rule parseInt_digits)

lemma parseInt_180: "parseInt (Some (asc ''180'')) = Fin 180"
  by (rule parseInt_digits)

lemma parseInt_NA: "parseInt (Some (asc ''N/A'')) = NaN"
  by (simp add: parseInt_def asc_def ToString_opt_def isStrWhiteSpaceChar_def isDigit_def digitsValue_def Let_def)

lemma rounded_sum: "jsadd (Fin 9007199254740992) (Fin 1) = Fin 9007199254740992"
  by code_simp

lemma small_sums:
  "toNumber 100 = Fin 100" "toNumber 180 = Fin 180" "toNumber 280 = Fin 280"
  "toNumber 9007199254740992 = Fin 9007199254740992" "toNumber 9007199254740993 = Fin 9007199254740992"
  by code_simp+

lemma small_texts:
  "magnitudeToString 280 = asc ''280''" "magnitudeToString 180 = asc ''180''"
  "magnitudeToString 100 = asc ''100''"
  "magnitudeToString 9007199254740992 = asc ''9007199254740992''"
  by code_simp+

text \<open>
  C1, as stated, fails for large integers: \<open>+\<close> adds doubles. With the points
  9007199254740992 and 1, both integers as \<open>parseInt\<close> returns them, the total is
  9007199254740992 and not their sum 9007199254740993.
\<close>

theorem totalPoints_rounds:
  "parseInt (unitPoints (unitCardOf ''u1'' ''Intercessor Squad'' ''9007199254740992'')) = Fin 9007199254740992
   \<and> parseInt (unitPoints (unitCardOf ''u2'' ''Redemptor Dreadnought'' ''1'')) = Fin 1
   \<and> totalPoints (armyList (run
        [AddToArmyClick (unitCardOf ''u1'' ''Intercessor Squad'' ''9007199254740992''),
         AddToArmyClick (unitCardOf ''u2'' ''Redemptor Dreadnought'' ''1'')]
        (initialState Map.empty))) = Fin 9007199254740992
   \<and> Fin 9007199254740992 \<noteq> Fin (9007199254740992 + 1)
   \<and> pointsTotalElement (run
        [AddToArmyClick (unitCardOf ''u1'' ''Intercessor Squad'' ''9007199254740992''),
         AddToArmyClick (unitCardOf ''u2'' ''Redemptor Dreadnought'' ''1'')]
        (initialState Map.empty)) = asc ''9007199254740992''"
  by (simp add: unitCardOf_def parseInt_digits addToArmyClick_def addUnitToArmy_def
      updatePointsTotal_def initialState_def totalPoints_def Let_def small_sums rounded_sum small_texts)

text \<open>
  C1, amended. Starting from an empty army list, after add clicks on cards whose points
  texts parse to the integers \<open>ps\<close>, the points total is their sum provided every running
  total is a safe integer (of magnitude at most \<open>2^53 - 1\<close>); the total of the empty
  list is 0. Adding the Intercessor Squad (100) and the Redemptor Dreadnought (180) gives
  280, and removing \<open>u1\<close> then leaves one entry and the total 180.
\<close>

theorem totalPoints_is_sum:
  assumes "armyList st = []"
    and "map (\<lambda>c. parseInt (unitPoints c)) cards = map Fin ps"
    and "\<forall>k \<le> length ps. \<bar>sum_list (take k ps)\<bar> \<le> maxSafe"
  shows "totalPoints (armyList (run (map AddToArmyClick cards) st)) = Fin (sum_list ps)
       \<and> totalPoints [] = Fin 0
       \<and> (let st2 = run [AddToArmyClick (unitCardOf ''u1'' ''Intercessor Squad'' ''100''),
                          AddToArmyClick (unitCardOf ''u2'' ''Redemptor Dreadnought'' ''180'')] st;
               st3 = snd (removeUnitFromArmy (Some (asc ''u1'')) st2)
           in totalPoints (armyList st2) = Fin 280 \<and> pointsTotalElement st2 = asc ''280''
            \<and> totalPoints (armyList st3) = Fin 180 \<and> pointsTotalElement st3 = asc ''180''
            \<and> length (armyList st3) = 1)"
proof -
  have "map unit_points (armyList (run (map AddToArmyClick cards) st)) = map Fin ps"
    using assms by (simp add: armyList_run_adds comp_def)
  then have general: "totalPoints (armyList (run (map AddToArmyClick cards) st)) = Fin (sum_list ps)"
    using assms(3) by (rule totalPoints_safe)
  have empty: "totalPoints [] = Fin 0"
    by (simp add: totalPoints_def)
  have ne: "asc ''u2'' \<noteq> asc ''u1''"
    by (simp add: asc_def)
  have scenario: "(let st2 = run [AddToArmyClick (unitCardOf ''u1'' ''Intercessor Squad'' ''100''),
                          AddToArmyClick (unitCardOf ''u2'' ''Redemptor Dreadnought'' ''180'')] st;
               st3 = snd (removeUnitFromArmy (Some (asc ''u1'')) st2)
           in totalPoints (armyList st2) = Fin 280 \<and> pointsTotalElement st2 = asc ''280''
            \<and> totalPoints (armyList st3) = Fin 180 \<and> pointsTotalElement st3 = asc ''180''
            \<and> length (armyList st3) = 1)"
    using assms(1) ne
    by (simp add: Let_def addToArmyClick_def addUnitToArmy_def updatePointsTotal_def unitCardOf_def
        parseInt_digits totalPoints_def removeUnitFromArmy_def renderArmyList_def splice1_def
        small_sums small_texts)
  from general empty scenario show ?thesis by blast
qed

theorem totalPoints_is_sum_witness:
  "armyList (initialState Map.empty) = []
   \<and> map (\<lambda>c. parseInt (unitPoints c))
        [unitCardOf ''u1'' ''Intercessor Squad'' ''100'', unitCardOf ''u2'' ''Redemptor Dreadnought'' ''180'']
       = map Fin [100, 180]
   \<and> \<bar>sum_list (take 0 [100, 180 :: int])\<bar> \<le> maxSafe
   \<and> \<bar>sum_list (take 1 [100, 180 :: int])\<bar> \<le> maxSafe
   \<and> \<bar>sum_list (take 2 [100, 180 :: int])\<bar> \<le> maxSafe
   \<and> totalPoints (armyList (run (map AddToArmyClick
        [unitCardOf ''u1'' ''Intercessor Squad'' ''100'', unitCardOf ''u2'' ''Redemptor Dreadnought'' ''180''])
        (initialState Map.empty))) = Fin 280"
proof -
  have safe: "\<forall>k \<le> length [100, 180 :: int]. \<bar>sum_list (take k [100, 180])\<bar> \<le> maxSafe"
  proof (intro allI impI)
    fix k :: nat
    assume "k \<le> length [100, 180 :: int]"
    then have "k = 0 \<or> k = 1 \<or> k = 2" by auto
    then show "\<bar>sum_list (take k [100, 180 :: int])\<bar> \<le> maxSafe"
      by (elim disjE) (simp_all add: maxSafe_def)
  qed
  have cards: "map (\<lambda>c. parseInt (unitPoints c))
        [unitCardOf ''u1'' ''Intercessor Squad'' ''100'', unitCardOf ''u2'' ''Redemptor Dreadnought'' ''180'']
       = map Fin [100, 180]"
    by (simp add: unitCardOf_def parseInt_digits)
  have start: "armyList (initialState Map.empty) = []"
    by (simp add: initialState_def)
  from totalPoints_is_sum [OF start cards safe] start cards show ?thesis
    by (simp add: maxSafe_def)
qed

lemma findIndex_absent: "(findIndex P xs = - 1) = (\<forall>x \<in> set xs. \<not> P x)"
proof (induction xs)
  case Nil
  show ?case by simp
next
  case (Cons x xs)
  have "findIndex P xs \<noteq> - 1 \<Longrightarrow> findIndex P xs + 1 \<noteq> - 1"
    using findIndex_range [of P xs] by auto
  with Cons show ?case by (auto simp: Let_def)
qed

lemma findIndex_first:
  "\<exists>x \<in> set xs. P x \<Longrightarrow>
     \<exists>ys u zs. xs = ys @ u # zs \<and> P u \<and> (\<forall>y \<in> set ys. \<not> P y) \<and> findIndex P xs = int (length ys)"
proof (induction xs)
  case Nil
  then show ?case by simp
next
  case (Cons x xs)
  show ?case
  proof (cases "P x")
    case True
    then have "x # xs = [] @ x # xs \<and> P x \<and> (\<forall>y \<in> set []. \<not> P y) \<and> findIndex P (x # xs) = int (length ([] :: 'a list))"
      by simp
    then show ?thesis by blast
  next
    case False
    with Cons.prems have "\<exists>x \<in> set xs. P x" by simp
    from Cons.IH [OF this] obtain ys u zs where
      h: "xs = ys @ u # zs" "P u" "\<forall>y \<in> set ys. \<not> P y" "findIndex P xs = int (length ys)"
      by blast
    from h False have "x # xs = (x # ys) @ u # zs \<and> P u \<and> (\<forall>y \<in> set (x # ys). \<not> P y)
        \<and> findIndex P (x # xs) = int (length (x # ys))"
      by (simp add: Let_def)
    then show ?thesis by blast
  qed
qed

lemma splice1_at: "splice1 (length ys) (ys @ u # zs) = ys @ zs"
  by (simp add: splice1_def)

lemma removeUnitFromArmy_absent:
  "\<forall>u \<in> set (armyList st). unit_id u \<noteq> i \<Longrightarrow> removeUnitFromArmy i st = (Undefined, st)"
  using findIndex_absent [of "\<lambda>unit. unit_id unit = i" "armyList st"]
  by (simp add: removeUnitFromArmy_def)

lemma removeUnitFromArmy_present:
  assumes "\<exists>u \<in> set (armyList st). unit_id u = i"
  shows "\<exists>ys u zs. armyList st = ys @ u # zs \<and> unit_id u = i \<and> (\<forall>y \<in> set ys. unit_id y \<noteq> i)
            \<and> armyList (snd (removeUnitFromArmy i st)) = ys @ zs"
proof -
  from findIndex_first [of "armyList st" "\<lambda>unit. unit_id unit = i", OF assms] obtain ys u zs where
    h: "armyList st = ys @ u # zs" "unit_id u = i" "\<forall>y \<in> set ys. unit_id y \<noteq> i"
       "findIndex (\<lambda>unit. unit_id unit = i) (armyList st) = int (length ys)"
    by blast
  have "armyList (snd (removeUnitFromArmy i st)) = ys @ zs"
    using h(4) splice1_at [of ys u zs] h(1)
    by (simp add: removeUnitFromArmy_def updatePointsTotal_def renderArmyList_def)
  with h show ?thesis by blast
qed

lemma removeUnitFromArmy_returns: "fst (removeUnitFromArmy i st) = Undefined"
  by (simp add: removeUnitFromArmy_def Let_def)

text \<open>
  C2, as stated, fails on the value returned: \<open>removeUnitFromArmy\<close> returns
  \<open>undefined\<close>, not \<open>true\<close>, when it removes the entry \<open>u1\<close>, and \<open>undefined\<close>,
  not \<open>false\<close>, when no entry has the id \<open>u3\<close>.
\<close>

theorem removeUnitFromArmy_returns_undefined:
  "armyList (snd (removeUnitFromArmy (Some (asc ''u1'')) ((initialState Map.empty)
       \<lparr>armyList := [\<lparr>unit_id = Some (asc ''u1''), unit_name = None, unit_points = Fin 100\<rparr>,
                     \<lparr>unit_id = Some (asc ''u2''), unit_name = None, unit_points = Fin 180\<rparr>]\<rparr>)))
     = [\<lparr>unit_id = Some (asc ''u2''), unit_name = None, unit_points = Fin 180\<rparr>]
   \<and> fst (removeUnitFromArmy (Some (asc ''u1'')) ((initialState Map.empty)
       \<lparr>armyList := [\<lparr>unit_id = Some (asc ''u1''), unit_name = None, unit_points = Fin 100\<rparr>,
                     \<lparr>unit_id = Some (asc ''u2''), unit_name = None, unit_points = Fin 180\<rparr>]\<rparr>))
     = Undefined
   \<and> Undefined \<noteq> Bool True
   \<and> fst (removeUnitFromArmy (Some (asc ''u3'')) ((initialState Map.empty)
       \<lparr>armyList := [\<lparr>unit_id = Some (asc ''u1''), unit_name = None, unit_points = Fin 100\<rparr>,
                     \<lparr>unit_id = Some (asc ''u2''), unit_name = None, unit_points = Fin 180\<rparr>]\<rparr>))
     = Undefined
   \<and> Undefined \<noteq> Bool False"
proof -
  have ne: "asc ''u2'' \<noteq> asc ''u1''"
    by (simp add: asc_def)
  then show ?thesis
    by (simp add: removeUnitFromArmy_returns)
       (simp add: initialState_def removeUnitFromArmy_def updatePointsTotal_def renderArmyList_def
          splice1_def)
qed

text \<open>
  C2, amended. \<open>removeUnitFromArmy\<close> removes the first entry whose id is the argument
  and keeps the other entries in their order, so the army list gets shorter by one; a
  second call then changes nothing when no entry with that id is left. When no entry has
  the id, the call changes nothing. In every case the value returned is \<open>undefined\<close>:
  whether an entry was removed shows in the army list only.
\<close>

theorem removeUnitFromArmy_first_match:
  "fst (removeUnitFromArmy i st) = Undefined
   \<and> (if \<exists>u \<in> set (armyList st). unit_id u = i
       then (\<exists>ys u zs. armyList st = ys @ u # zs \<and> unit_id u = i \<and> (\<forall>y \<in> set ys. unit_id y \<noteq> i)
               \<and> armyList (snd (removeUnitFromArmy i st)) = ys @ zs)
          \<and> length (armyList (snd (removeUnitFromArmy i st))) + 1 = length (armyList st)
          \<and> ((\<forall>u \<in> set (armyList (snd (removeUnitFromArmy i st))). unit_id u \<noteq> i) \<longrightarrow>
               removeUnitFromArmy i (snd (removeUnitFromArmy i st)) = (Undefined, snd (removeUnitFromArmy i st)))
       else removeUnitFromArmy i st = (Undefined, st))"
proof (cases "\<exists>u \<in> set (armyList st). unit_id u = i")
  case True
  from removeUnitFromArmy_present [OF True] obtain ys u zs where
    h: "armyList st = ys @ u # zs" "unit_id u = i" "\<forall>y \<in> set ys. unit_id y \<noteq> i"
       "armyList (snd (removeUnitFromArmy i st)) = ys @ zs"
    by blast
  then have len: "length (armyList (snd (removeUnitFromArmy i st))) + 1 = length (armyList st)"
    by simp
  from h len removeUnitFromArmy_absent [of "snd (removeUnitFromArmy i st)" i] True
    removeUnitFromArmy_returns [of i st]
  show ?thesis by (simp only: if_True) blast
next
  case False
  then show ?thesis
    using removeUnitFromArmy_absent [of st i] removeUnitFromArmy_returns [of i st] by simp
qed

theorem removeUnitFromArmy_first_match_witness:
  "(let st = (initialState Map.empty)
       \<lparr>armyList := [\<lparr>unit_id = Some (asc ''u1''), unit_name = None, unit_points = Fin 100\<rparr>,
                     \<lparr>unit_id = Some (asc ''u2''), unit_name = None, unit_points = Fin 180\<rparr>]\<rparr>;
        i = Some (asc ''u1'')
    in (\<exists>u \<in> set (armyList st). unit_id u = i)
     \<and> fst (removeUnitFromArmy i st) = Undefined
     \<and> length (armyList (snd (removeUnitFromArmy i st))) + 1 = length (armyList st)
     \<and> (\<forall>u \<in> set (armyList (snd (removeUnitFromArmy i st))). unit_id u \<noteq> i)
     \<and> removeUnitFromArmy i (snd (removeUnitFromArmy i st)) = (Undefined, snd (removeUnitFromArmy i st)))"
proof -
  have ne: "asc ''u2'' \<noteq> asc ''u1''"
    by (simp add: asc_def)
  show ?thesis
    using ne removeUnitFromArmy_first_match [of "Some (asc ''u1'')" "(initialState Map.empty)
       \<lparr>armyList := [\<lparr>unit_id = Some (asc ''u1''), unit_name = None, unit_points = Fin 100\<rparr>,
                     \<lparr>unit_id = Some (asc ''u2''), unit_name = None, unit_points = Fin 180\<rparr>]\<rparr>"]
    by (simp add: Let_def initialState_def removeUnitFromArmy_def
        updatePointsTotal_def renderArmyList_def splice1_def)
qed

lemma jsadd_NaN_right: "jsadd x NaN = NaN"
  by (cases x) simp_all

lemma totalPoints_snoc: "totalPoints (l @ [u]) = jsadd (totalPoints l) (unit_points u)"
  by (simp add: totalPoints_def)

text \<open>
  C10. A catalogue entry without a points cost is rendered with the points text
  \<open>N/A\<close>. Adding it appends an entry whose points are \<open>NaN\<close>, whatever the army
  list held before, and the points total becomes \<open>NaN\<close>: it is no integer, and the
  page shows \<open>NaN\<close>.
\<close>

theorem NaN_points_enter_roster:
  "(let unitCard = \<lparr>unitId = i, unitName = n, unitPoints = Some (renderUnitCard_unitPoints None)\<rparr>;
        st' = addToArmyClick unitCard st
    in armyList st' = armyList st @ [\<lparr>unit_id = i, unit_name = n, unit_points = NaN\<rparr>]
     \<and> totalPoints (armyList st') = NaN
     \<and> (\<nexists>p. totalPoints (armyList st') = Fin p)
     \<and> pointsTotalElement st' = asc ''NaN'')"
  by (simp add: Let_def renderUnitCard_unitPoints_def armyList_addToArmyClick parseInt_NA
      totalPoints_snoc jsadd_NaN_right addToArmyClick_def addUnitToArmy_def updatePointsTotal_def)


section \<open>Properties of the favorites\<close>

lemma map_of_deleteProperty: "map_of (deleteProperty k ps) = (map_of ps)(k := None)"
  by (induction ps) (auto simp: deleteProperty_def)

lemma keys_deleteProperty: "fst ` set (deleteProperty k ps) = fst ` set ps - {k}"
  by (induction ps) (auto simp: deleteProperty_def)

lemma deleteProperty_absent: "k \<notin> fst ` set ps \<Longrightarrow> deleteProperty k ps = ps"
  by (induction ps) (auto simp: deleteProperty_def)

lemma map_of_insertIndexKey:
  "k \<notin> fst ` set ps \<Longrightarrow> map_of (insertIndexKey i k v ps) = (map_of ps)(k \<mapsto> v)"
  by (induction ps) (auto split: option.splits)

lemma set_insertIndexKey: "set (insertIndexKey i k v ps) = insert (k, v) (set ps)"
  by (induction ps) (auto split: option.splits if_splits)

lemma deleteProperty_insertIndexKey:
  "k \<notin> fst ` set ps \<Longrightarrow> deleteProperty k (insertIndexKey i k v ps) = ps"
proof (induction ps)
  case Nil
  show ?case by (simp add: deleteProperty_def)
next
  case (Cons p ps)
  obtain k' v' where p: "p = (k', v')" by (cases p)
  from Cons.prems p have ne: "k' \<noteq> k" and notin: "k \<notin> fst ` set ps" by auto
  have rest: "deleteProperty k ((k', v') # ps) = (k', v') # ps"
    using deleteProperty_absent [of k "(k', v') # ps"] ne notin by simp
  have step: "deleteProperty k ((k', v') # insertIndexKey i k v ps) = (k', v') # ps"
    using Cons.IH [OF notin] ne by (simp add: deleteProperty_def)
  have ins: "deleteProperty k ((k, v) # (k', v') # ps) = (k', v') # ps"
    using rest by (simp add: deleteProperty_def)
  show ?case
    unfolding p using step ins by (simp split: option.splits)
qed

lemma map_of_replace:
  "map_of (map (\<lambda>(k', v'). if k' = k then (k', v) else (k', v')) ps) =
     (if k \<in> fst ` set ps then (map_of ps)(k \<mapsto> v) else map_of ps)"
  by (induction ps) (auto simp: fun_upd_twist)

lemma map_of_snoc:
  "k \<notin> fst ` set ps \<Longrightarrow> map_of (ps @ [(k, v)]) = (map_of ps)(k \<mapsto> v)"
  by (induction ps) (auto simp: fun_upd_twist)

lemma map_of_setProperty: "map_of (setProperty k v ps) = (map_of ps)(k \<mapsto> v)"
  by (simp add: setProperty_def map_of_replace map_of_insertIndexKey map_of_snoc
      del: map_of_append split: option.splits)

lemma keys_setProperty: "fst ` set (setProperty k v ps) = insert k (fst ` set ps)"
proof -
  have "fst ` set (map (\<lambda>(k', v'). if k' = k then (k', v) else (k', v')) ps) = fst ` set ps"
    by (induction ps) auto
  then show ?thesis
    by (auto simp: setProperty_def set_insertIndexKey split: option.splits)
qed

lemma deleteProperty_snoc:
  "k \<notin> fst ` set ps \<Longrightarrow> deleteProperty k (ps @ [(k, v)]) = ps"
  using deleteProperty_absent [of k ps] by (simp add: deleteProperty_def)

lemma deleteProperty_setProperty:
  "k \<notin> fst ` set ps \<Longrightarrow> deleteProperty k (setProperty k v ps) = ps"
  by (simp add: setProperty_def deleteProperty_insertIndexKey deleteProperty_snoc split: option.splits)

lemma propertyTruthy_own:
  assumes "\<forall>v \<in> snd ` set ps. truthy v" and "k \<in> fst ` set ps"
  shows "propertyTruthy ps k"
proof -
  from assms(2) obtain v where v: "map_of ps k = Some v"
    by (metis domD dom_map_of_conv_image_fst)
  then have "(k, v) \<in> set ps" by (rule map_of_SomeD)
  then have "v \<in> snd ` set ps" by force
  with assms(1) have "truthy v" by blast
  with v show ?thesis by (simp add: propertyTruthy_def)
qed

lemma propertyTruthy_absent:
  assumes "k \<notin> fst ` set ps"
  shows "propertyTruthy ps k = (k \<in> set ObjectPrototype_names)"
proof -
  from assms have "map_of ps k = None" by (simp add: map_of_eq_None_iff)
  then show ?thesis by (simp add: propertyTruthy_def)
qed

lemma u1_plain: "asc ''u1'' \<notin> set ObjectPrototype_names" "arrayIndex (asc ''u1'') = None"
  by (simp_all add: ObjectPrototype_names_def asc_def arrayIndex_def isDigit_def)

text \<open>
  C3. Two favorite clicks. The id \<open>constructor\<close> is not a key of the empty favorites
  object, yet \<open>favorites[unitId]\<close> reads the member every object inherits and is truthy:
  the click takes the removing branch, inserts nothing and leaves the button without the
  class \<open>favorited\<close>, and \<open>listFavorites\<close> stays empty. And a card of the favorites
  tab carries no name and no points: a click on its heart removes the unit, and a second
  click stores under the id a unit without a name whose points are \<open>NaN\<close>, not the unit
  that the card shows.
\<close>

theorem favorite_click_misses:
  \<open>ToString_opt (unitId (unitCardOf ''constructor'' ''Captain'' ''80'')) \<notin> fst ` set ([] :: (jsstring \<times> jsval) list)
   \<and> toggleFavorite (unitCardOf ''constructor'' ''Captain'' ''80'') [] = (False, [])
   \<and> listFavorites (snd (favoriteClick (unitCardOf ''constructor'' ''Captain'' ''80'') (initialState Map.empty))) = Inr []
   \<and> (let u = Obj [(asc ''id'', Str (asc ''u1'')), (asc ''name'', Str (asc ''Intercessor Squad'')),
                    (asc ''points'', Num (Fin 100))];
            st1 = snd (showTab (asc ''favorites'') ((initialState Map.empty)\<lparr>favorites := Obj [(asc ''u1'', u)]\<rparr>));
            heart = favoriteCardDataset (hd (favoritesContainer st1));
            st2 = snd (favoriteClick heart st1);
            st3 = snd (favoriteClick heart st2)
        in favoritesContainer st1 = [(asc ''u1'', asc ''Intercessor Squad'', asc ''100'')]
         \<and> favorites st2 = Obj []
         \<and> favorites st3 = Obj [(asc ''u1'', Obj [(asc ''id'', Str (asc ''u1'')), (asc ''name'', Undefined),
                                                   (asc ''points'', Num NaN)])]
         \<and> localStorage st3 favoritesKey = Some (asc ''{"u1":{"id":"u1","points":null}}''))\<close>
proof -
  have first: "ToString_opt (unitId (unitCardOf ''constructor'' ''Captain'' ''80'')) \<notin> fst ` set ([] :: (jsstring \<times> jsval) list)
   \<and> toggleFavorite (unitCardOf ''constructor'' ''Captain'' ''80'') [] = (False, [])
   \<and> listFavorites (snd (favoriteClick (unitCardOf ''constructor'' ''Captain'' ''80'') (initialState Map.empty))) = Inr []"
    by (simp add: toggleFavorite_def unitCardOf_def ToString_opt_def propertyTruthy_def
      ObjectPrototype_names_def deleteProperty_def favoriteClick_def initialState_def
      listFavorites_def Object_values_def saveFavorites_def)
  let ?u = "Obj [(asc ''id'', Str (asc ''u1'')), (asc ''name'', Str (asc ''Intercessor Squad'')),
                 (asc ''points'', Num (Fin 100))]"
  let ?st0 = "(initialState Map.empty)\<lparr>favorites := Obj [(asc ''u1'', ?u)]\<rparr>"
  let ?heart = "\<lparr>unitId = Some (asc ''u1''), unitName = None, unitPoints = None\<rparr>"
  let ?bare = "Obj [(asc ''id'', Str (asc ''u1'')), (asc ''name'', Undefined), (asc ''points'', Num NaN)]"
  have card: "favoriteCard ?u = Inr (asc ''u1'', asc ''Intercessor Squad'', asc ''100'')"
    by code_simp
  have shown: "favoritesContainer (snd (showTab (asc ''favorites'') ?st0)) = [(asc ''u1'', asc ''Intercessor Squad'', asc ''100'')]"
    and kept: "favorites (snd (showTab (asc ''favorites'') ?st0)) = Obj [(asc ''u1'', ?u)]"
    and store: "localStorage (snd (showTab (asc ''favorites'') ?st0)) = Map.empty"
    using card
    by (simp_all add: showTab_def renderFavorites_def listFavorites_def Object_values_def
        initialState_def Let_def)
  have undef: "parseInt None = NaN"
    by (simp add: parseInt_def asc_def ToString_opt_def isStrWhiteSpaceChar_def isDigit_def Let_def)
  have t1: "toggleFavorite ?heart [(asc ''u1'', ?u)] = (False, [])"
    by (simp add: toggleFavorite_def ToString_opt_def propertyTruthy_def deleteProperty_def Let_def)
  have t2: "toggleFavorite ?heart [] = (True, [(asc ''u1'', ?bare)])"
    using u1_plain undef
    by (simp add: toggleFavorite_def ToString_opt_def propertyTruthy_def setProperty_def Let_def
        favoriteUnit_def optionalString_def)
  have saved: \<open>JSON_stringify (Obj [(asc ''u1'', ?bare)]) = Some (asc ''{"u1":{"id":"u1","points":null}}'')\<close>
    by code_simp
  have second: "(let u = ?u;
            st1 = snd (showTab (asc ''favorites'') ((initialState Map.empty)\<lparr>favorites := Obj [(asc ''u1'', u)]\<rparr>));
            heart = favoriteCardDataset (hd (favoritesContainer st1));
            st2 = snd (favoriteClick heart st1);
            st3 = snd (favoriteClick heart st2)
        in favoritesContainer st1 = [(asc ''u1'', asc ''Intercessor Squad'', asc ''100'')]
         \<and> favorites st2 = Obj []
         \<and> favorites st3 = Obj [(asc ''u1'', ?bare)]
         \<and> localStorage st3 favoritesKey = JSON_stringify (Obj [(asc ''u1'', ?bare)]))"
    using shown kept t1 t2
    by (simp add: Let_def favoriteCardDataset_def favoriteClick_def saveFavorites_def ToString_opt_def)
  from second have second': \<open>(let u = ?u;
            st1 = snd (showTab (asc ''favorites'') ((initialState Map.empty)\<lparr>favorites := Obj [(asc ''u1'', u)]\<rparr>));
            heart = favoriteCardDataset (hd (favoritesContainer st1));
            st2 = snd (favoriteClick heart st1);
            st3 = snd (favoriteClick heart st2)
        in favoritesContainer st1 = [(asc ''u1'', asc ''Intercessor Squad'', asc ''100'')]
         \<and> favorites st2 = Obj []
         \<and> favorites st3 = Obj [(asc ''u1'', ?bare)]
         \<and> localStorage st3 favoritesKey = Some (asc ''{"u1":{"id":"u1","points":null}}''))\<close>
    unfolding saved .
  from first second' show ?thesis by blast
qed

text \<open>
  The favorite branch in general. Let every value of the favorites object be truthy (as
  unit objects are) and let \<open>k\<close> be the card's id. If \<open>k\<close> is a key, the toggle
  deletes it and reports not favorited. If \<open>k\<close> is no key and no property name
  inherited from \<open>Object.prototype\<close>, the toggle stores the triple
  \<open>{id, name, points}\<close> under \<open>k\<close> and reports favorited. If \<open>k\<close> is no key
  but an inherited name, nothing changes and the toggle reports not favorited. From the
  empty object, one toggle of \<open>u1\<close> makes \<open>listFavorites\<close> hold exactly the unit
  with id \<open>u1\<close>, and a second toggle empties it.
\<close>

lemma toggleFavorite_cases:
  assumes "\<forall>v \<in> snd ` set ps. truthy v"
  shows "(let k = ToString_opt (unitId c); favorited = fst (toggleFavorite c ps); ps' = snd (toggleFavorite c ps)
          in (k \<in> fst ` set ps \<longrightarrow>
                \<not> favorited \<and> ps' = deleteProperty k ps \<and> map_of ps' = (map_of ps)(k := None))
           \<and> (k \<notin> fst ` set ps \<and> k \<notin> set ObjectPrototype_names \<longrightarrow>
                favorited \<and> map_of ps' = (map_of ps)(k \<mapsto> favoriteUnit c)
                \<and> fst ` set ps' = insert k (fst ` set ps))
           \<and> (k \<notin> fst ` set ps \<and> k \<in> set ObjectPrototype_names \<longrightarrow> \<not> favorited \<and> ps' = ps))
       \<and> (let u = unitCardOf ''u1'' ''Intercessor Squad'' ''100'';
               st1 = snd (favoriteClick u (initialState storage));
               st2 = snd (favoriteClick u st1)
           in fst (toggleFavorite u []) \<and> listFavorites st1 = Inr [favoriteUnit u]
            \<and> getProperty (favoriteUnit u) (asc ''id'') = Inr (Str (asc ''u1''))
            \<and> \<not> fst (toggleFavorite u (snd (toggleFavorite u []))) \<and> listFavorites st2 = Inr [])"
proof -
  let ?k = "ToString_opt (unitId c)"
  have own: "?k \<in> fst ` set ps \<Longrightarrow> toggleFavorite c ps = (False, deleteProperty ?k ps)"
    using propertyTruthy_own [OF assms, of ?k] by (simp add: toggleFavorite_def)
  have fresh: "?k \<notin> fst ` set ps \<Longrightarrow> ?k \<notin> set ObjectPrototype_names \<Longrightarrow>
      toggleFavorite c ps = (True, setProperty ?k (favoriteUnit c) ps)"
    using propertyTruthy_absent [of ?k ps] by (simp add: toggleFavorite_def)
  have inherited: "?k \<notin> fst ` set ps \<Longrightarrow> ?k \<in> set ObjectPrototype_names \<Longrightarrow>
      toggleFavorite c ps = (False, ps)"
    using propertyTruthy_absent [of ?k ps] deleteProperty_absent [of ?k ps]
    by (simp add: toggleFavorite_def)
  have general: "(let k = ?k; favorited = fst (toggleFavorite c ps); ps' = snd (toggleFavorite c ps)
          in (k \<in> fst ` set ps \<longrightarrow>
                \<not> favorited \<and> ps' = deleteProperty k ps \<and> map_of ps' = (map_of ps)(k := None))
           \<and> (k \<notin> fst ` set ps \<and> k \<notin> set ObjectPrototype_names \<longrightarrow>
                favorited \<and> map_of ps' = (map_of ps)(k \<mapsto> favoriteUnit c)
                \<and> fst ` set ps' = insert k (fst ` set ps))
           \<and> (k \<notin> fst ` set ps \<and> k \<in> set ObjectPrototype_names \<longrightarrow> \<not> favorited \<and> ps' = ps))"
    using own fresh inherited
    by (auto simp: Let_def map_of_deleteProperty map_of_setProperty keys_setProperty
        simp del: fun_upd_apply)
  let ?u = "unitCardOf ''u1'' ''Intercessor Squad'' ''100''"
  have k: "ToString_opt (unitId ?u) = asc ''u1''"
    by (simp add: unitCardOf_def ToString_opt_def)
  have t1: "toggleFavorite ?u [] = (True, [(asc ''u1'', favoriteUnit ?u)])"
    using u1_plain by (simp add: toggleFavorite_def k propertyTruthy_def setProperty_def)
  have t2: "toggleFavorite ?u [(asc ''u1'', favoriteUnit ?u)] = (False, [])"
    by (simp add: toggleFavorite_def k propertyTruthy_def deleteProperty_def favoriteUnit_def)
  have idu: "getProperty (favoriteUnit ?u) (asc ''id'') = Inr (Str (asc ''u1''))"
    by (simp add: getProperty_def favoriteUnit_def unitCardOf_def optionalString_def)
  have scenario: "(let u = ?u;
               st1 = snd (favoriteClick u (initialState storage));
               st2 = snd (favoriteClick u st1)
           in fst (toggleFavorite u []) \<and> listFavorites st1 = Inr [favoriteUnit u]
            \<and> getProperty (favoriteUnit u) (asc ''id'') = Inr (Str (asc ''u1''))
            \<and> \<not> fst (toggleFavorite u (snd (toggleFavorite u []))) \<and> listFavorites st2 = Inr [])"
    using t1 t2 idu
    by (simp add: Let_def favoriteClick_def initialState_def saveFavorites_def listFavorites_def
        Object_values_def)
  from general scenario show ?thesis by blast
qed

lemma toggleFavorite_cases_example:
  "(let u = unitCardOf ''u1'' ''Intercessor Squad'' ''100'';
        ps = [(asc ''u1'', favoriteUnit u)]
    in (\<forall>v \<in> snd ` set ps. truthy v) \<and> ToString_opt (unitId u) \<in> fst ` set ps
     \<and> \<not> fst (toggleFavorite u ps) \<and> snd (toggleFavorite u ps) = [])
   \<and> (let c = unitCardOf ''u2'' ''Redemptor Dreadnought'' ''180'';
           ps = [(asc ''u1'', favoriteUnit (unitCardOf ''u1'' ''Intercessor Squad'' ''100''))]
       in ToString_opt (unitId c) \<notin> fst ` set ps \<and> ToString_opt (unitId c) \<notin> set ObjectPrototype_names
        \<and> fst (toggleFavorite c ps)
        \<and> map_of (snd (toggleFavorite c ps)) = (map_of ps)(asc ''u2'' \<mapsto> favoriteUnit c))"
proof -
  have ne: "asc ''u2'' \<noteq> asc ''u1''" "asc ''u2'' \<notin> set ObjectPrototype_names"
    by (simp_all add: asc_def ObjectPrototype_names_def)
  show ?thesis
    using ne
      toggleFavorite_cases [of "[(asc ''u1'', favoriteUnit (unitCardOf ''u1'' ''Intercessor Squad'' ''100''))]"
        "unitCardOf ''u1'' ''Intercessor Squad'' ''100''"]
      toggleFavorite_cases [of "[(asc ''u1'', favoriteUnit (unitCardOf ''u1'' ''Intercessor Squad'' ''100''))]"
        "unitCardOf ''u2'' ''Redemptor Dreadnought'' ''180''"]
    by (simp add: Let_def favoriteUnit_def unitCardOf_def ToString_opt_def deleteProperty_def)
qed

text \<open>
  C7. A favorite click on a favorites object completes normally and leaves in the storage,
  under the key \<open>favorites\<close>, the JSON text of the favorites object as it is after the
  click: the write is part of the handler. Hence after any non-empty sequence of favorite
  clicks the stored text is the serialisation of the favorites in memory.
\<close>

theorem favorites_write_through:
  assumes "favorites st = Obj ps"
  shows "fst (favoriteClick c st) = Normal
       \<and> favorites (snd (favoriteClick c st)) = Obj (snd (toggleFavorite c ps))
       \<and> localStorage (snd (favoriteClick c st)) favoritesKey
           = JSON_stringify (favorites (snd (favoriteClick c st)))
       \<and> (cs \<noteq> [] \<longrightarrow>
            localStorage (run (map FavoriteClick cs) st) favoritesKey
              = JSON_stringify (favorites (run (map FavoriteClick cs) st))
            \<and> JSON_stringify (favorites (run (map FavoriteClick cs) st)) \<noteq> None)"
proof -
  have one: "fst (favoriteClick c st) = Normal
       \<and> favorites (snd (favoriteClick c st)) = Obj (snd (toggleFavorite c ps))
       \<and> localStorage (snd (favoriteClick c st)) favoritesKey
           = JSON_stringify (favorites (snd (favoriteClick c st)))"
    if "favorites st = Obj ps" for st ps c
    using that by (simp add: favoriteClick_def saveFavorites_def ToString_opt_def)
  have many: "\<exists>ps'. favorites (run (map FavoriteClick cs) st) = Obj ps'
        \<and> localStorage (run (map FavoriteClick cs) st) favoritesKey
              = JSON_stringify (favorites (run (map FavoriteClick cs) st))"
    if "cs \<noteq> []" "favorites st = Obj ps" for cs st ps
    using that
  proof (induction cs arbitrary: st ps)
    case Nil
    then show ?case by simp
  next
    case (Cons c cs)
    from one [OF Cons.prems(2), of c] have
      h: "favorites (snd (favoriteClick c st)) = Obj (snd (toggleFavorite c ps))"
         "localStorage (snd (favoriteClick c st)) favoritesKey
           = JSON_stringify (favorites (snd (favoriteClick c st)))"
      by simp_all
    show ?case
    proof (cases "cs = []")
      case True
      with h show ?thesis by simp
    next
      case False
      from Cons.IH [OF False h(1)] show ?thesis by simp
    qed
  qed
  have "cs \<noteq> [] \<longrightarrow>
            localStorage (run (map FavoriteClick cs) st) favoritesKey
              = JSON_stringify (favorites (run (map FavoriteClick cs) st))
            \<and> JSON_stringify (favorites (run (map FavoriteClick cs) st)) \<noteq> None"
    using many [OF _ assms, of cs] by auto
  with one [OF assms, of c] show ?thesis by blast
qed

lemma stringify_empty: "JSON_stringify (Obj []) = Some (asc ''{}'')"
  by (simp add: asc_def)

theorem favorites_write_through_witness:
  "favorites (initialState Map.empty) = Obj []
   \<and> fst (favoriteClick (unitCardOf ''u1'' ''Intercessor Squad'' ''100'') (initialState Map.empty)) = Normal
   \<and> localStorage (run (map FavoriteClick [unitCardOf ''u1'' ''Intercessor Squad'' ''100'',
          unitCardOf ''u1'' ''Intercessor Squad'' ''100'']) (initialState Map.empty)) favoritesKey
       = Some (asc ''{}'')"
proof -
  let ?u = "unitCardOf ''u1'' ''Intercessor Squad'' ''100''"
  have f: "favorites (initialState Map.empty) = Obj []"
    by (simp add: initialState_def)
  have t1: "toggleFavorite ?u [] = (True, [(asc ''u1'', favoriteUnit ?u)])"
    using u1_plain by (simp add: toggleFavorite_def unitCardOf_def ToString_opt_def propertyTruthy_def setProperty_def Let_def)
  have t2: "toggleFavorite ?u [(asc ''u1'', favoriteUnit ?u)] = (False, [])"
    by (simp add: toggleFavorite_def unitCardOf_def ToString_opt_def propertyTruthy_def deleteProperty_def favoriteUnit_def Let_def)
  have "favorites (run (map FavoriteClick [?u, ?u]) (initialState Map.empty)) = Obj []"
    using t1 t2 by (simp add: favoriteClick_def initialState_def saveFavorites_def)
  with favorites_write_through [OF f, of ?u "[?u, ?u]"] f stringify_empty
  show ?thesis by simp
qed

text \<open>
  C4, as stated, fails in a fresh browser: before the first click nothing is stored under
  \<open>favorites\<close>, and after the second click the stored value is the text \<open>{}\<close>.
\<close>

theorem toggle_twice_storage_differs:
  "localStorage (initialState Map.empty) favoritesKey = None
   \<and> localStorage (run [FavoriteClick (unitCardOf ''u1'' ''Intercessor Squad'' ''100''),
                        FavoriteClick (unitCardOf ''u1'' ''Intercessor Squad'' ''100'')]
         (initialState Map.empty)) favoritesKey = Some (asc ''{}'')"
proof -
  let ?u = "unitCardOf ''u1'' ''Intercessor Squad'' ''100''"
  have t1: "toggleFavorite ?u [] = (True, [(asc ''u1'', favoriteUnit ?u)])"
    using u1_plain
    by (simp add: toggleFavorite_def unitCardOf_def ToString_opt_def propertyTruthy_def
        setProperty_def Let_def)
  have t2: "toggleFavorite ?u [(asc ''u1'', favoriteUnit ?u)] = (False, [])"
    by (simp add: toggleFavorite_def unitCardOf_def ToString_opt_def propertyTruthy_def
        deleteProperty_def favoriteUnit_def Let_def)
  show ?thesis
    using t1 t2 stringify_empty
    by (simp add: favoriteClick_def initialState_def saveFavorites_def ToString_opt_def)
qed

lemma toggleFavorite_twice:
  assumes "\<forall>v \<in> snd ` set ps. truthy v"
  shows "(let k = ToString_opt (unitId c); ps2 = snd (toggleFavorite c (snd (toggleFavorite c ps)))
          in propertyTruthy ps2 k = propertyTruthy ps k
           \<and> (k \<notin> fst ` set ps \<longrightarrow> ps2 = ps)
           \<and> (k \<in> fst ` set ps \<and> k \<notin> set ObjectPrototype_names \<longrightarrow>
                map_of ps2 = (map_of ps)(k \<mapsto> favoriteUnit c)))"
proof -
  let ?k = "ToString_opt (unitId c)"
  let ?u = "favoriteUnit c"
  have tu: "truthy ?u" by (simp add: favoriteUnit_def)
  show ?thesis
  proof (cases "?k \<in> fst ` set ps")
    case True
    then have own: "propertyTruthy ps ?k" using assms by (rule propertyTruthy_own [rotated])
    then have t1: "toggleFavorite c ps = (False, deleteProperty ?k ps)"
      by (simp add: toggleFavorite_def Let_def)
    have gone: "?k \<notin> fst ` set (deleteProperty ?k ps)"
      by (simp add: keys_deleteProperty)
    show ?thesis
    proof (cases "?k \<in> set ObjectPrototype_names")
      case inh: True
      then have "propertyTruthy (deleteProperty ?k ps) ?k"
        using propertyTruthy_absent [OF gone] by simp
      then have "toggleFavorite c (deleteProperty ?k ps) = (False, deleteProperty ?k ps)"
        using deleteProperty_absent [OF gone] by (simp add: toggleFavorite_def Let_def)
      with t1 True inh own \<open>propertyTruthy (deleteProperty ?k ps) ?k\<close> show ?thesis
        by (simp add: Let_def)
    next
      case plain: False
      then have "\<not> propertyTruthy (deleteProperty ?k ps) ?k"
        using propertyTruthy_absent [OF gone] by simp
      then have t2: "toggleFavorite c (deleteProperty ?k ps) = (True, setProperty ?k ?u (deleteProperty ?k ps))"
        by (simp add: toggleFavorite_def Let_def)
      have m: "map_of (setProperty ?k ?u (deleteProperty ?k ps)) = (map_of ps)(?k \<mapsto> ?u)"
        by (simp add: map_of_setProperty map_of_deleteProperty)
      then have "propertyTruthy (setProperty ?k ?u (deleteProperty ?k ps)) ?k"
        using tu by (simp add: propertyTruthy_def)
      with t1 t2 m True own show ?thesis
        by (simp add: Let_def)
    qed
  next
    case False
    show ?thesis
    proof (cases "?k \<in> set ObjectPrototype_names")
      case inh: True
      then have "propertyTruthy ps ?k" using propertyTruthy_absent [OF False] by simp
      then have "toggleFavorite c ps = (False, ps)"
        using deleteProperty_absent [OF False] by (simp add: toggleFavorite_def Let_def)
      with False show ?thesis by (simp add: Let_def)
    next
      case plain: False
      then have no: "\<not> propertyTruthy ps ?k" using propertyTruthy_absent [OF False] by simp
      then have t1: "toggleFavorite c ps = (True, setProperty ?k ?u ps)"
        by (simp add: toggleFavorite_def Let_def)
      have "map_of (setProperty ?k ?u ps) ?k = Some ?u"
        by (simp add: map_of_setProperty)
      then have "propertyTruthy (setProperty ?k ?u ps) ?k"
        using tu by (simp add: propertyTruthy_def)
      then have t2: "toggleFavorite c (setProperty ?k ?u ps) = (False, ps)"
        using deleteProperty_setProperty [OF False] by (simp add: toggleFavorite_def Let_def)
      from t1 t2 False no show ?thesis by (simp add: Let_def)
    qed
  qed
qed

text \<open>
  C4, amended. On a favorites object with truthy values, two successive clicks on the same
  card restore what the handler tests (\<open>favorites[unitId]\<close> is truthy or not as before).
  If the id was no key, the favorites object is exactly as before; if it was a key (and no
  inherited name), it is a key again, now holding the card's triple, and all other keys
  are unchanged. The stored text after the second click is the serialisation of the
  favorites then; it is the value stored before the first click provided that value was
  the serialisation of the favorites at that time and the id was no key.
\<close>

theorem toggle_twice:
  assumes "favorites st = Obj ps" and "\<forall>v \<in> snd ` set ps. truthy v"
  shows "(let k = ToString_opt (unitId c); st2 = run [FavoriteClick c, FavoriteClick c] st
          in (\<exists>ps2. favorites st2 = Obj ps2
                \<and> propertyTruthy ps2 k = propertyTruthy ps k
                \<and> (k \<notin> fst ` set ps \<longrightarrow> ps2 = ps)
                \<and> (k \<in> fst ` set ps \<and> k \<notin> set ObjectPrototype_names \<longrightarrow>
                     map_of ps2 = (map_of ps)(k \<mapsto> favoriteUnit c)))
           \<and> localStorage st2 favoritesKey = JSON_stringify (favorites st2)
           \<and> (k \<notin> fst ` set ps \<and> localStorage st favoritesKey = JSON_stringify (favorites st) \<longrightarrow>
                localStorage st2 favoritesKey = localStorage st favoritesKey))"
proof -
  let ?ps1 = "snd (toggleFavorite c ps)"
  let ?ps2 = "snd (toggleFavorite c ?ps1)"
  let ?st2 = "run [FavoriteClick c, FavoriteClick c] st"
  have f2: "favorites ?st2 = Obj ?ps2"
    using assms(1) by (simp add: favoriteClick_def saveFavorites_def)
  have s2: "localStorage ?st2 favoritesKey = JSON_stringify (favorites ?st2)"
    using assms(1) by (simp add: favoriteClick_def saveFavorites_def ToString_opt_def)
  from toggleFavorite_twice [OF assms(2), of c] f2 s2 assms(1) show ?thesis
    by (auto simp: Let_def)
qed

theorem toggle_twice_witness:
  "(let st = initialState (Map.empty(favoritesKey \<mapsto> asc ''{}''));
        c = unitCardOf ''u1'' ''Intercessor Squad'' ''100'';
        st2 = run [FavoriteClick c, FavoriteClick c] st
    in favorites st = Obj [] \<and> (\<forall>v \<in> snd ` set ([] :: (jsstring \<times> jsval) list). truthy v)
     \<and> ToString_opt (unitId c) \<notin> fst ` set ([] :: (jsstring \<times> jsval) list)
     \<and> localStorage st favoritesKey = JSON_stringify (favorites st)
     \<and> favorites st2 = Obj []
     \<and> localStorage st2 favoritesKey = localStorage st favoritesKey)"
  using toggle_twice [of "initialState (Map.empty(favoritesKey \<mapsto> asc ''{}''))" "[]"
      "unitCardOf ''u1'' ''Intercessor Squad'' ''100''"] stringify_empty
  by (simp add: Let_def initialState_def)

section \<open>Properties of the storage\<close>

lemma renderFavoriteCards_frame:
  "localStorage (snd (renderFavoriteCards us st)) = localStorage st
   \<and> armyList (snd (renderFavoriteCards us st)) = armyList st"
  by (induction us arbitrary: st) (auto split: sum.splits)

lemma renderFavorites_frame:
  "localStorage (snd (renderFavorites st)) = localStorage st
   \<and> armyList (snd (renderFavorites st)) = armyList st"
  using renderFavoriteCards_frame
  by (simp add: renderFavorites_def Let_def split: sum.splits)

lemma showTab_frame:
  "localStorage (snd (showTab t st)) = localStorage st \<and> armyList (snd (showTab t st)) = armyList st"
  using renderFavorites_frame [of "st\<lparr>activeTab := Some t\<rparr>"]
  by (cases "t = asc ''favorites''") (simp_all add: showTab_def Let_def)

lemma loadFavorites_frame:
  "localStorage (loadFavorites st) = localStorage st \<and> armyList (loadFavorites st) = armyList st"
  by (simp add: loadFavorites_def split: option.splits sum.splits)

lemma loadCrusadeData_frame:
  "localStorage (snd (loadCrusadeData st)) = localStorage st
   \<and> armyList (snd (loadCrusadeData st)) = armyList st"
  by (simp add: loadCrusadeData_def Let_def split: option.splits sum.splits)

lemma onDOMContentLoaded_frame:
  "localStorage (snd (onDOMContentLoaded st)) = localStorage st
   \<and> armyList (snd (onDOMContentLoaded st)) = armyList st"
proof (cases "loadCrusadeData (loadFavorites st)")
  case (Pair c st1)
  then have "localStorage st1 = localStorage st \<and> armyList st1 = armyList st"
    using loadCrusadeData_frame [of "loadFavorites st"] loadFavorites_frame [of st] by simp
  with Pair showTab_frame [of "asc ''battle-forge''" st1] show ?thesis
    by (cases c) (simp_all add: onDOMContentLoaded_def)
qed

lemma roster_clicks_frame:
  "localStorage (addToArmyClick c st) = localStorage st"
  "localStorage (snd (removeUnitFromArmy i st)) = localStorage st"
  by (simp_all add: addToArmyClick_def addUnitToArmy_def removeUnitFromArmy_def
      updatePointsTotal_def renderArmyList_def Let_def)

lemma favoriteClick_frame:
  "k \<noteq> favoritesKey \<Longrightarrow> localStorage (snd (favoriteClick c st)) k = localStorage st k"
  by (simp add: favoriteClick_def saveFavorites_def split: jsval.splits)

lemma handle_frame:
  assumes "k \<noteq> favoritesKey" and "k \<noteq> crusadeDataKey"
  shows "localStorage (snd (handle e st)) k = localStorage st k"
proof (cases e)
  case DOMContentLoaded
  then show ?thesis using onDOMContentLoaded_frame [of st] by simp
next
  case (TabClick t)
  then show ?thesis using showTab_frame [of t st] by simp
next
  case (FavoriteClick c)
  then show ?thesis using favoriteClick_frame [OF assms(1)] by simp
next
  case SaveCrusadeClick
  then show ?thesis using assms(2) by (simp add: saveCrusadeClick_def Let_def)
qed (simp_all add: roster_clicks_frame statusTimeout_def)

lemma run_frame:
  assumes "k \<noteq> favoritesKey" and "k \<noteq> crusadeDataKey"
  shows "localStorage (run es st) k = localStorage st k"
  by (induction es arbitrary: st) (simp_all add: handle_frame [OF assms])

lemma run_roster_frame:
  "\<forall>e \<in> set es. (\<exists>c. e = AddToArmyClick c) \<or> (\<exists>i. e = RemoveFromArmyClick i) \<Longrightarrow>
     localStorage (run es st) = localStorage st"
  by (induction es arbitrary: st) (auto simp: roster_clicks_frame)

text \<open>
  C8. Whatever events a session handles, the storage is the same as before under every key
  other than \<open>favorites\<close> and \<open>crusadeData\<close>. A sequence of add and remove clicks
  leaves the whole storage as it was. The army list is empty when the script has been
  evaluated and still empty after the start-up handler, whatever the storage holds.
\<close>

theorem storage_writes:
  "(k \<noteq> favoritesKey \<and> k \<noteq> crusadeDataKey \<longrightarrow> localStorage (run es st) k = localStorage st k)
   \<and> ((\<forall>e \<in> set es. (\<exists>c. e = AddToArmyClick c) \<or> (\<exists>i. e = RemoveFromArmyClick i)) \<longrightarrow>
        localStorage (run es st) = localStorage st)
   \<and> armyList (initialState storage) = []
   \<and> armyList (run [DOMContentLoaded] (initialState storage)) = []"
proof -
  have "armyList (initialState storage) = []"
    by (simp add: initialState_def)
  moreover from this have "armyList (run [DOMContentLoaded] (initialState storage)) = []"
    using onDOMContentLoaded_frame [of "initialState storage"] by simp
  ultimately show ?thesis
    using run_frame [of k es st] run_roster_frame [of es st] by blast
qed

theorem storage_writes_witness:
  "(let es = [AddToArmyClick (unitCardOf ''u1'' ''Intercessor Squad'' ''100''),
              RemoveFromArmyClick (Some (asc ''u1'')),
              AddToArmyClick (unitCardOf ''u2'' ''Redemptor Dreadnought'' ''180'')];
        st = initialState Map.empty
    in asc ''armyList'' \<noteq> favoritesKey \<and> asc ''armyList'' \<noteq> crusadeDataKey
     \<and> localStorage (run (FavoriteClick (unitCardOf ''u1'' ''Intercessor Squad'' ''100'') # SaveCrusadeClick # es) st)
          (asc ''armyList'') = None
     \<and> (\<forall>e \<in> set es. (\<exists>c. e = AddToArmyClick c) \<or> (\<exists>i. e = RemoveFromArmyClick i))
     \<and> localStorage (run es st) = Map.empty)"
proof -
  let ?es = "[AddToArmyClick (unitCardOf ''u1'' ''Intercessor Squad'' ''100''),
              RemoveFromArmyClick (Some (asc ''u1'')),
              AddToArmyClick (unitCardOf ''u2'' ''Redemptor Dreadnought'' ''180'')]"
  have ne: "asc ''armyList'' \<noteq> favoritesKey" "asc ''armyList'' \<noteq> crusadeDataKey"
    by (simp_all add: asc_def favoritesKey_def crusadeDataKey_def)
  have all: "\<forall>e \<in> set ?es. (\<exists>c. e = AddToArmyClick c) \<or> (\<exists>i. e = RemoveFromArmyClick i)"
    by simp
  have init: "localStorage (initialState Map.empty) = Map.empty"
    by (simp add: initialState_def)
  from storage_writes [of "asc ''armyList''"
      "FavoriteClick (unitCardOf ''u1'' ''Intercessor Squad'' ''100'') # SaveCrusadeClick # ?es"
      "initialState Map.empty" Map.empty]
    storage_writes [of "asc ''armyList''" ?es "initialState Map.empty" Map.empty]
    ne all init
  show ?thesis unfolding Let_def by presburger
qed

section \<open>Properties of loading\<close>

lemma parse_not_json: "JSON_parse (asc ''not json'') = Inl SyntaxError"
  by (simp add: JSON_parse_def asc_def skipWs_def isJSONWhitespace_def expect_def)

lemma parse_stored_unit:
  \<open>JSON_parse (asc ''{"u1":{"id":"u1","name":"A","points":100}}'') =
     Inr (Obj [(asc ''u1'', Obj [(asc ''id'', Str (asc ''u1'')), (asc ''name'', Str (asc ''A'')),
                                 (asc ''points'', Num (Fin 100))])])\<close>
  by code_simp

lemma asc_nonempty: "asc (c # cs) \<noteq> []"
  by (simp add: asc_def)

text \<open>
  C5, as stated, fails for a stored value that is JSON: \<open>loadFavorites\<close> then makes
  \<open>favorites\<close> the parsed value, here an object with the key \<open>u1\<close>, not the empty
  object.
\<close>

theorem loadFavorites_keeps_parsed_value:
  \<open>favorites (loadFavorites (initialState
      (Map.empty(favoritesKey \<mapsto> asc ''{"u1":{"id":"u1","name":"A","points":100}}'')))) =
     Obj [(asc ''u1'', Obj [(asc ''id'', Str (asc ''u1'')), (asc ''name'', Str (asc ''A'')),
                            (asc ''points'', Num (Fin 100))])]
   \<and> favorites (loadFavorites (initialState
      (Map.empty(favoritesKey \<mapsto> asc ''{"u1":{"id":"u1","name":"A","points":100}}'')))) \<noteq> Obj []\<close>
  using asc_nonempty by (simp add: loadFavorites_def initialState_def parse_stored_unit)

text \<open>
  C5, amended. When nothing or the empty string is stored under \<open>favorites\<close>,
  \<open>loadFavorites\<close> changes nothing. When a non-empty string is stored, \<open>favorites\<close>
  becomes the parsed value, or the empty object if the string is not JSON. So at the start
  of a session an absent or malformed value leaves the empty object; the string
  \<open>not json\<close> is such a value. No exception escapes: whatever is stored under
  \<open>favorites\<close>, the start-up handler completes normally when no crusade data is stored.
\<close>

theorem loadFavorites_cases:
  "(localStorage st favoritesKey = None \<or> localStorage st favoritesKey = Some [] \<longrightarrow> loadFavorites st = st)
   \<and> (localStorage st favoritesKey = Some s \<and> s \<noteq> [] \<longrightarrow>
        loadFavorites st = st\<lparr>favorites := (case JSON_parse s of Inl e \<Rightarrow> Obj [] | Inr v \<Rightarrow> v)\<rparr>)
   \<and> (storage favoritesKey = None \<or> storage favoritesKey = Some [] \<or>
        (\<exists>t. storage favoritesKey = Some t \<and> JSON_parse t = Inl SyntaxError) \<longrightarrow>
        favorites (loadFavorites (initialState storage)) = Obj [])
   \<and> JSON_parse (asc ''not json'') = Inl SyntaxError
   \<and> (localStorage st crusadeDataKey = None \<longrightarrow> fst (onDOMContentLoaded st) = Normal)"
proof -
  have absent: "localStorage st favoritesKey = None \<or> localStorage st favoritesKey = Some [] \<longrightarrow>
      loadFavorites st = st"
    by (auto simp: loadFavorites_def)
  have stored: "localStorage st favoritesKey = Some s \<and> s \<noteq> [] \<longrightarrow>
      loadFavorites st = st\<lparr>favorites := (case JSON_parse s of Inl e \<Rightarrow> Obj [] | Inr v \<Rightarrow> v)\<rparr>"
    by (auto simp: loadFavorites_def split: sum.splits)
  have start: "storage favoritesKey = None \<or> storage favoritesKey = Some [] \<or>
        (\<exists>t. storage favoritesKey = Some t \<and> JSON_parse t = Inl SyntaxError) \<longrightarrow>
        favorites (loadFavorites (initialState storage)) = Obj []"
    by (auto simp: loadFavorites_def initialState_def)
  have startup: "localStorage st crusadeDataKey = None \<longrightarrow> fst (onDOMContentLoaded st) = Normal"
  proof
    assume "localStorage st crusadeDataKey = None"
    then have "localStorage (loadFavorites st) crusadeDataKey = None"
      using loadFavorites_frame [of st] by simp
    then have "loadCrusadeData (loadFavorites st) = (Normal, loadFavorites st)"
      by (simp add: loadCrusadeData_def)
    moreover have "asc ''battle-forge'' \<noteq> asc ''favorites''"
      by (simp add: asc_def)
    ultimately show "fst (onDOMContentLoaded st) = Normal"
      by (simp add: onDOMContentLoaded_def showTab_def)
  qed
  from absent stored start parse_not_json startup show ?thesis by blast
qed

theorem loadFavorites_cases_witness:
  "(let storage = Map.empty(favoritesKey \<mapsto> asc ''not json''); st = initialState storage
    in localStorage st favoritesKey = Some (asc ''not json'') \<and> asc ''not json'' \<noteq> []
     \<and> JSON_parse (asc ''not json'') = Inl SyntaxError
     \<and> localStorage st crusadeDataKey = None
     \<and> favorites (loadFavorites st) = Obj []
     \<and> fst (onDOMContentLoaded st) = Normal)"
proof -
  have ne: "crusadeDataKey \<noteq> favoritesKey"
    by (simp add: crusadeDataKey_def favoritesKey_def asc_def)
  show ?thesis
    using ne asc_nonempty
      loadFavorites_cases [of "initialState (Map.empty(favoritesKey \<mapsto> asc ''not json''))"
        "asc ''not json''" "Map.empty(favoritesKey \<mapsto> asc ''not json'')"]
    by (simp add: Let_def initialState_def)
qed

text \<open>
  C9. With the string \<open>not json\<close> stored under \<open>crusadeData\<close>, \<open>JSON.parse\<close> throws
  a \<open>SyntaxError\<close> that \<open>loadCrusadeData\<close> does not catch: it escapes the start-up
  handler, which therefore never shows the first tab. With the JSON text \<open>null\<close> stored,
  reading \<open>crusadeData.battleHonors\<close> throws a \<open>TypeError\<close> in the same way.
\<close>

theorem loadCrusadeData_uncaught:
  "(let st = initialState (Map.empty(crusadeDataKey \<mapsto> asc ''not json''))
    in loadCrusadeData st = (Uncaught SyntaxError, st)
     \<and> onDOMContentLoaded st = (Uncaught SyntaxError, st)
     \<and> activeTab (snd (onDOMContentLoaded st)) = None)
   \<and> (let st = initialState (Map.empty(crusadeDataKey \<mapsto> asc ''null''))
       in onDOMContentLoaded st = (Uncaught TypeError, st))"
proof -
  have ne: "favoritesKey \<noteq> crusadeDataKey"
    by (simp add: crusadeDataKey_def favoritesKey_def asc_def)
  have null: "JSON_parse (asc ''null'') = Inr Null"
    by code_simp
  show ?thesis
    using ne asc_nonempty
    by (simp add: Let_def initialState_def loadCrusadeData_def onDOMContentLoaded_def
        loadFavorites_def parse_not_json null storedField_def getProperty_def)
qed

text \<open>
  C6. A favorite click on a card whose points text is \<open>N/A\<close> stores a unit with the
  points \<open>NaN\<close>, which is written as \<open>null\<close>. The next session reads the points
  \<open>null\<close>: the favorites it loads are not the favorites that were saved.
\<close>

theorem NaN_points_do_not_round_trip:
  \<open>(let unitCard = \<lparr>unitId = Some (asc ''u1''), unitName = Some (asc ''A''),
                      unitPoints = Some (renderUnitCard_unitPoints None)\<rparr>;
         st1 = snd (favoriteClick unitCard (initialState Map.empty));
         st2 = loadFavorites (initialState (localStorage st1))
     in favorites st1 = Obj [(asc ''u1'', Obj [(asc ''id'', Str (asc ''u1'')), (asc ''name'', Str (asc ''A'')),
                                               (asc ''points'', Num NaN)])]
      \<and> localStorage st1 favoritesKey = Some (asc ''{"u1":{"id":"u1","name":"A","points":null}}'')
      \<and> favorites st2 = Obj [(asc ''u1'', Obj [(asc ''id'', Str (asc ''u1'')), (asc ''name'', Str (asc ''A'')),
                                                 (asc ''points'', Null)])]
      \<and> favorites st2 \<noteq> favorites st1)\<close>
proof -
  let ?c = "\<lparr>unitId = Some (asc ''u1''), unitName = Some (asc ''A''),
              unitPoints = Some (renderUnitCard_unitPoints None)\<rparr>"
  let ?unit = "Obj [(asc ''id'', Str (asc ''u1'')), (asc ''name'', Str (asc ''A'')), (asc ''points'', Num NaN)]"
  have unit: "favoriteUnit ?c = ?unit"
    by (simp add: favoriteUnit_def optionalString_def renderUnitCard_unitPoints_def parseInt_NA)
  have t: "toggleFavorite ?c [] = (True, [(asc ''u1'', ?unit)])"
    using u1_plain unit
    by (simp add: toggleFavorite_def ToString_opt_def propertyTruthy_def setProperty_def Let_def)
  have saved: \<open>JSON_stringify (Obj [(asc ''u1'', ?unit)]) =
      Some (asc ''{"u1":{"id":"u1","name":"A","points":null}}'')\<close>
    by code_simp
  have reread: \<open>JSON_parse (asc ''{"u1":{"id":"u1","name":"A","points":null}}'') =
      Inr (Obj [(asc ''u1'', Obj [(asc ''id'', Str (asc ''u1'')), (asc ''name'', Str (asc ''A'')),
                                  (asc ''points'', Null)])])\<close>
    by code_simp
  show ?thesis
    using t saved reread asc_nonempty
    by (simp add: Let_def favoriteClick_def initialState_def saveFavorites_def ToString_opt_def
        loadFavorites_def)
qed

section \<open>Reading back what JSON.stringify wrote\<close>

lemma hexValue_hexDigit: "d < 16 \<Longrightarrow> hexValue (hexDigit d) = Some d"
proof -
  assume "d < 16"
  then have "d = 0 \<or> d = 1 \<or> d = 2 \<or> d = 3 \<or> d = 4 \<or> d = 5 \<or> d = 6 \<or> d = 7 \<or> d = 8
      \<or> d = 9 \<or> d = 10 \<or> d = 11 \<or> d = 12 \<or> d = 13 \<or> d = 14 \<or> d = 15"
    by arith
  then show ?thesis
    by (elim disjE) (simp_all add: hexValue_def hexDigit_def)
qed

lemma hex_digits_value:
  fixes n :: nat
  shows "((n div 4096 * 16 + n div 256 mod 16) * 16 + n div 16 mod 16) * 16 + n mod 16 = n"
proof -
  have a: "n div 256 = (n div 16) div 16" and b: "n div 4096 = ((n div 16) div 16) div 16"
    by (simp_all add: div_mult2_eq)
  show ?thesis unfolding a b
    by (simp only: div_mult_mod_eq)
qed

lemma unat_jschar: "unat (c :: jschar) < 65536"
  using unsigned_less [of c, where 'a = nat] by simp

lemma surrogate_plain:
  "isLeadSurrogate c \<or> isTrailSurrogate c \<Longrightarrow> c \<noteq> 0x22 \<and> c \<noteq> 0x5C \<and> \<not> c < 0x20"
  by (auto simp: isLeadSurrogate_def isTrailSurrogate_def word_le_nat_alt word_less_nat_alt)

lemma parseStringBody_quote: "parseStringBody (0x22 # rest) = Some ([], rest)"
  by simp

lemma parseStringBody_plain:
  "c \<noteq> 0x22 \<Longrightarrow> c \<noteq> 0x5C \<Longrightarrow> \<not> c < 0x20 \<Longrightarrow>
     parseStringBody (c # rest) = consUnit c (parseStringBody rest)"
  by simp

lemma parseStringBody_escape:
  "unescape e = Some u \<Longrightarrow> e \<noteq> 0x75 \<Longrightarrow>
     parseStringBody (0x5C # e # rest) = consUnit u (parseStringBody rest)"
  by simp

lemma parseStringBody_hex:
  "hex4 h1 h2 h3 h4 = Some u \<Longrightarrow>
     parseStringBody (0x5C # 0x75 # h1 # h2 # h3 # h4 # rest) = consUnit u (parseStringBody rest)"
  by simp

lemma parse_UnicodeEscape:
  "parseStringBody (UnicodeEscape c @ rest) = consUnit c (parseStringBody rest)"
proof -
  let ?n = "unat c"
  have n: "?n < 65536" by (rule unat_jschar)
  then have d: "?n div 4096 < 16" "?n div 256 mod 16 < 16" "?n div 16 mod 16 < 16" "?n mod 16 < 16"
    by simp_all
  have "hex4 (hexDigit (?n div 4096)) (hexDigit (?n div 256 mod 16)) (hexDigit (?n div 16 mod 16))
          (hexDigit (?n mod 16))
        = Some (of_nat (((?n div 4096 * 16 + ?n div 256 mod 16) * 16 + ?n div 16 mod 16) * 16 + ?n mod 16))"
    by (simp only: hex4_def hexValue_hexDigit [OF d(1)] hexValue_hexDigit [OF d(2)]
        hexValue_hexDigit [OF d(3)] hexValue_hexDigit [OF d(4)] prod.case option.case)
  also have "\<dots> = Some (of_nat ?n)"
    by (simp only: hex_digits_value)
  also have "\<dots> = Some c"
    by simp
  finally have "hex4 (hexDigit (?n div 4096)) (hexDigit (?n div 256 mod 16)) (hexDigit (?n div 16 mod 16))
          (hexDigit (?n mod 16)) = Some c" .
  from parseStringBody_hex [OF this] show ?thesis
    by (simp add: UnicodeEscape_def Let_def del: parseStringBody.simps)
qed

lemma parse_quoteUnit: "parseStringBody (quoteUnit c @ rest) = consUnit c (parseStringBody rest)"
proof -
  consider (b) "c = 0x08" | (t) "c = 0x09" | (n) "c = 0x0A" | (f) "c = 0x0C" | (r) "c = 0x0D"
    | (q) "c = 0x22" | (s) "c = 0x5C"
    | (u) "c \<noteq> 0x08" "c \<noteq> 0x09" "c \<noteq> 0x0A" "c \<noteq> 0x0C" "c \<noteq> 0x0D" "c \<noteq> 0x22" "c \<noteq> 0x5C"
          "c < 0x20 \<or> isLeadSurrogate c \<or> isTrailSurrogate c"
    | (p) "c \<noteq> 0x08" "c \<noteq> 0x09" "c \<noteq> 0x0A" "c \<noteq> 0x0C" "c \<noteq> 0x0D" "c \<noteq> 0x22" "c \<noteq> 0x5C"
          "\<not> (c < 0x20 \<or> isLeadSurrogate c \<or> isTrailSurrogate c)"
    by blast
  then show ?thesis
  proof cases
    case b
    then have "quoteUnit c = [0x5C, 0x62]" by (simp add: quoteUnit_def)
    moreover have "unescape 0x62 = Some 0x08" by (simp add: unescape_def)
    ultimately show ?thesis using b parseStringBody_escape [of "0x62" "0x08" rest]
      by (simp del: parseStringBody.simps)
  next
    case t
    then have "quoteUnit c = [0x5C, 0x74]" by (simp add: quoteUnit_def)
    moreover have "unescape 0x74 = Some 0x09" by (simp add: unescape_def)
    ultimately show ?thesis using t parseStringBody_escape [of "0x74" "0x09" rest]
      by (simp del: parseStringBody.simps)
  next
    case n
    then have "quoteUnit c = [0x5C, 0x6E]" by (simp add: quoteUnit_def)
    moreover have "unescape 0x6E = Some 0x0A" by (simp add: unescape_def)
    ultimately show ?thesis using n parseStringBody_escape [of "0x6E" "0x0A" rest]
      by (simp del: parseStringBody.simps)
  next
    case f
    then have "quoteUnit c = [0x5C, 0x66]" by (simp add: quoteUnit_def)
    moreover have "unescape 0x66 = Some 0x0C" by (simp add: unescape_def)
    ultimately show ?thesis using f parseStringBody_escape [of "0x66" "0x0C" rest]
      by (simp del: parseStringBody.simps)
  next
    case r
    then have "quoteUnit c = [0x5C, 0x72]" by (simp add: quoteUnit_def)
    moreover have "unescape 0x72 = Some 0x0D" by (simp add: unescape_def)
    ultimately show ?thesis using r parseStringBody_escape [of "0x72" "0x0D" rest]
      by (simp del: parseStringBody.simps)
  next
    case q
    then have "quoteUnit c = [0x5C, 0x22]" by (simp add: quoteUnit_def)
    moreover have "unescape 0x22 = Some 0x22" by (simp add: unescape_def)
    ultimately show ?thesis using q parseStringBody_escape [of "0x22" "0x22" rest]
      by (simp del: parseStringBody.simps)
  next
    case s
    then have "quoteUnit c = [0x5C, 0x5C]" by (simp add: quoteUnit_def)
    moreover have "unescape 0x5C = Some 0x5C" by (simp add: unescape_def)
    ultimately show ?thesis using s parseStringBody_escape [of "0x5C" "0x5C" rest]
      by (simp del: parseStringBody.simps)
  next
    case u
    then have "quoteUnit c = UnicodeEscape c" by (simp add: quoteUnit_def)
    then show ?thesis by (simp add: parse_UnicodeEscape del: parseStringBody.simps)
  next
    case p
    then have "quoteUnit c = [c]" by (simp add: quoteUnit_def)
    with p parseStringBody_plain [of c rest] show ?thesis by (simp del: parseStringBody.simps)
  qed
qed

lemma parse_quoteUnits:
  "parseStringBody (quoteUnits s @ 0x22 # rest) = Some (s, rest)"
proof (induction s rule: quoteUnits.induct)
  case 1
  show ?case by simp
next
  case (2 c)
  show ?case
    by (simp add: parse_quoteUnit parseStringBody_quote consUnit_def del: parseStringBody.simps)
next
  case (3 c d cs)
  show ?case
  proof (cases "isLeadSurrogate c \<and> isTrailSurrogate d")
    case True
    then have pc: "c \<noteq> 0x22" "c \<noteq> 0x5C" "\<not> c < 0x20" and pd: "d \<noteq> 0x22" "d \<noteq> 0x5C" "\<not> d < 0x20"
      using surrogate_plain [of c] surrogate_plain [of d] by blast+
    have "parseStringBody (c # d # quoteUnits cs @ 0x22 # rest)
        = consUnit c (consUnit d (parseStringBody (quoteUnits cs @ 0x22 # rest)))"
      by (simp only: parseStringBody_plain [OF pc] parseStringBody_plain [OF pd])
    with True 3(1) show ?thesis by (simp add: consUnit_def del: parseStringBody.simps)
  next
    case False
    then have "quoteUnits (c # d # cs) @ 0x22 # rest = quoteUnit c @ (quoteUnits (d # cs) @ 0x22 # rest)"
      by auto
    then show ?thesis
      using 3(2) [OF False] by (simp only: parse_quoteUnit consUnit_def option.case prod.case)
  qed
qed

lemma digitChar_props:
  "0 \<le> d \<Longrightarrow> d < 10 \<Longrightarrow>
     isDigit (digitChar d) \<and> uint (digitChar d) = 48 + d \<and> (digitChar d = 0x30 \<longleftrightarrow> d = 0)
     \<and> digitChar d \<noteq> 0x2D"
proof -
  assume "0 \<le> d" "d < 10"
  then have "d = 0 \<or> d = 1 \<or> d = 2 \<or> d = 3 \<or> d = 4 \<or> d = 5 \<or> d = 6 \<or> d = 7 \<or> d = 8 \<or> d = 9"
    by arith
  then show ?thesis
    by (elim disjE) (simp_all add: digitChar_def isDigit_def)
qed

lemma decimalDigits_small: "n < 10 \<Longrightarrow> decimalDigits n = [digitChar n]"
  by (subst decimalDigits.simps) simp

lemma decimalDigits_large: "\<not> n < 10 \<Longrightarrow> decimalDigits n = decimalDigits (n div 10) @ [digitChar (n mod 10)]"
  by (subst decimalDigits.simps) simp

lemma digitsValue_snoc: "digitsValue (ds @ [c]) = 10 * digitsValue ds + (uint c - 48)"
  by (simp add: digitsValue_def)

lemma decimalDigits_props:
  "0 \<le> n \<Longrightarrow>
     decimalDigits n \<noteq> [] \<and> list_all isDigit (decimalDigits n) \<and> digitsValue (decimalDigits n) = n
     \<and> (hd (decimalDigits n) = 0x30 \<longrightarrow> n = 0)"
proof (induction n rule: decimalDigits.induct)
  case (1 n)
  show ?case
  proof (cases "n < 10")
    case True
    then show ?thesis
      using digitChar_props [of n] 1(2) by (simp add: decimalDigits_small digitsValue_def)
  next
    case False
    have m: "0 \<le> n mod 10" "n mod 10 < 10" by simp_all
    from False have d: "0 \<le> n div 10" "n div 10 \<noteq> 0" by simp_all
    from 1(1) [OF False d(1)] have ih: "decimalDigits (n div 10) \<noteq> []"
      "list_all isDigit (decimalDigits (n div 10))"
      "digitsValue (decimalDigits (n div 10)) = n div 10"
      "hd (decimalDigits (n div 10)) = 0x30 \<longrightarrow> n div 10 = 0"
      by simp_all
    from d(2) ih(4) have "hd (decimalDigits (n div 10)) \<noteq> 0x30" by blast
    moreover have "10 * (n div 10) + n mod 10 = n"
      by simp
    ultimately show ?thesis
      using ih digitChar_props [OF m]
      by (simp add: decimalDigits_large [OF False] digitsValue_snoc)
  qed
qed

lemma lexNumber_digits:
  assumes "ds \<noteq> []" "list_all isDigit ds" "hd ds = 0x30 \<longrightarrow> ds = [0x30]" "numberEnd c"
  shows "lexNumber (ds @ c # rest) = Some (Num (toNumber (digitsValue ds)), c # rest)"
    and "lexNumber (0x2D # ds @ c # rest) = Some (Num (toNumber (- digitsValue ds)), c # rest)"
proof -
  from assms(1) obtain h t where ds: "ds = h # t" by (cases ds) auto
  with assms(2) have h: "isDigit h" and t: "list_all isDigit t" by simp_all
  from h have hm: "h \<noteq> 0x2D" by (auto simp: isDigit_def)
  from assms(4) have c: "\<not> isDigit c" "c \<noteq> 0x2E" "c \<noteq> 0x65" "c \<noteq> 0x45"
    by (simp_all add: numberEnd_def)
  have tw: "takeWhile isDigit (h # t @ c # rest) = h # t"
    using h t c(1) by (simp add: takeWhile_append list_all_iff takeWhile_eq_all_conv [THEN iffD2])
  have zero: "h = 0x30 \<Longrightarrow> t = []" using assms(3) ds by simp
  have sg: "(case c # rest of
               x # d # _ \<Rightarrow> if (x = 0x65 \<or> x = 0x45) \<and> (d = 0x2B \<or> d = 0x2D) then [x, d]
                            else if x = 0x65 \<or> x = 0x45 then [x] else []
             | [x] \<Rightarrow> if x = 0x65 \<or> x = 0x45 then [x] else []
             | [] \<Rightarrow> []) = ([] :: jsstring)"
    using c by (cases rest) simp_all
  show "lexNumber (ds @ c # rest) = Some (Num (toNumber (digitsValue ds)), c # rest)"
    unfolding lexNumber_def ds
    using hm c tw zero sg by (simp add: Let_def)
  show "lexNumber (0x2D # ds @ c # rest) = Some (Num (toNumber (- digitsValue ds)), c # rest)"
    unfolding lexNumber_def ds
    using hm c tw zero sg by (simp add: Let_def)
qed

lemma lexNumber_intToString:
  assumes "numberEnd c" and "\<bar>n\<bar> \<le> maxSafe"
  shows "lexNumber (intToString n @ c # rest) = Some (Num (Fin n), c # rest)"
proof -
  have p: "decimalDigits m \<noteq> []" "list_all isDigit (decimalDigits m)"
    "hd (decimalDigits m) = 0x30 \<longrightarrow> decimalDigits m = [0x30]" "digitsValue (decimalDigits m) = m"
    if "0 \<le> m" for m
  proof -
    show "decimalDigits m \<noteq> []" "list_all isDigit (decimalDigits m)" "digitsValue (decimalDigits m) = m"
      using decimalDigits_props [OF that] by simp_all
    show "hd (decimalDigits m) = 0x30 \<longrightarrow> decimalDigits m = [0x30]"
    proof
      assume "hd (decimalDigits m) = 0x30"
      with decimalDigits_props [OF that] have "m = 0" by blast
      then show "decimalDigits m = [0x30]" by (simp add: decimalDigits_small digitChar_def)
    qed
  qed
  show ?thesis
  proof (cases "n < 0")
    case True
    then have pos: "0 \<le> - n" by simp
    from lexNumber_digits(2) [OF p(1) [OF pos] p(2) [OF pos] p(3) [OF pos] assms(1), of rest] p(4) [OF pos] True
    show ?thesis by (simp add: intToString_def toNumber_safe [OF assms(2)])
  next
    case False
    then have pos: "0 \<le> n" by simp
    from lexNumber_digits(1) [OF p(1) [OF pos] p(2) [OF pos] p(3) [OF pos] assms(1), of rest] p(4) [OF pos] False
    show ?thesis by (simp add: intToString_def toNumber_safe [OF assms(2)])
  qed
qed

declare parseValue.simps [simp del] parseElements.simps [simp del] parseMembers.simps [simp del]
  parseStringBody.simps [simp del]

lemma skipWs_nonws: "\<not> isJSONWhitespace c \<Longrightarrow> skipWs (c # cs) = c # cs"
  by (simp add: skipWs_def)

lemma parseValue_string:
  "parseValue (QuoteJSONString s @ rest) = Some (Str s, rest)"
proof -
  have "skipWs (0x22 # quoteUnits s @ 0x22 # rest) = 0x22 # quoteUnits s @ 0x22 # rest"
    by (rule skipWs_nonws) (simp add: isJSONWhitespace_def)
  then show ?thesis
    by (subst parseValue.simps) (simp add: QuoteJSONString_def parse_quoteUnits)
qed

lemma intToString_head:
  "\<exists>h t. intToString n = h # t \<and> (isDigit h \<or> h = 0x2D)"
proof (cases "n < 0")
  case True
  then show ?thesis by (simp add: intToString_def)
next
  case False
  then have pos: "0 \<le> n" by simp
  obtain h t where ht: "decimalDigits n = h # t"
    using decimalDigits_props [OF pos] by (cases "decimalDigits n") auto
  with decimalDigits_props [OF pos] have "isDigit h" by simp
  with False ht show ?thesis by (simp add: intToString_def)
qed

lemma parseValue_int:
  assumes "numberEnd c" and "\<bar>n\<bar> \<le> maxSafe"
  shows "parseValue (intToString n @ c # rest) = Some (Num (Fin n), c # rest)"
proof -
  from intToString_head [of n] obtain h t where ht: "intToString n = h # t" "isDigit h \<or> h = 0x2D"
    by blast
  from ht(2) have nows: "\<not> isJSONWhitespace h"
    and other: "h \<noteq> 0x7B" "h \<noteq> 0x5B" "h \<noteq> 0x22" "h \<noteq> 0x74" "h \<noteq> 0x66" "h \<noteq> 0x6E"
    by (auto simp: isDigit_def isJSONWhitespace_def)
  have sk: "skipWs (h # t @ c # rest) = h # t @ c # rest"
    using nows by (rule skipWs_nonws)
  have "parseValue (h # t @ c # rest) = lexNumber (h # t @ c # rest)"
    by (subst parseValue.simps) (simp add: sk other)
  with lexNumber_intToString [OF assms, of rest] ht(1) show ?thesis by simp
qed

lemma parseMembers_member:
  assumes "parseValue (V @ d # rest) = Some (v, d # rest)" and "V \<noteq> []" and "d = 0x2C \<or> d = 0x7D"
  shows "parseMembers acc (QuoteJSONString k @ 0x3A # V @ d # rest) =
           (if d = 0x2C then parseMembers (setProperty k v acc) rest
            else Some (Obj (setProperty k v acc), rest))"
proof -
  have s0: "skipWs (QuoteJSONString k @ 0x3A # V @ d # rest) = 0x22 # quoteUnits k @ 0x22 # 0x3A # V @ d # rest"
    by (simp add: QuoteJSONString_def skipWs_nonws isJSONWhitespace_def)
  have s1: "skipWs (0x3A # V @ d # rest) = 0x3A # V @ d # rest"
    by (simp add: skipWs_nonws isJSONWhitespace_def)
  have s3: "skipWs (d # rest) = d # rest"
    using assms(3) by (auto simp: skipWs_nonws isJSONWhitespace_def)
  have len: "length (d # rest) < length (V @ d # rest)"
    using assms(2) by simp
  show ?thesis
    apply (subst parseMembers.simps)
    apply (simp only: s0 list.case if_True parse_quoteUnits option.case prod.case)
    apply (simp only: s1 assms(1) s3 len list.case option.case prod.case if_True)
    using assms(3) apply (auto simp: parse_quoteUnits)
    done
qed

lemma storedUnitE:
  assumes "storedUnit v"
  obtains i n p where "v = Obj [(asc ''id'', Str i), (asc ''name'', Str n), (asc ''points'', Num (Fin p))]"
    and "\<bar>p\<bar> \<le> maxSafe"
  using assms by (elim storedUnit.elims) auto

lemma stringify_unit:
  assumes "\<bar>p\<bar> \<le> maxSafe"
  shows "JSON_stringify (Obj [(asc ''id'', Str i), (asc ''name'', Str n), (asc ''points'', Num (Fin p))])
     = Some (unitText i n p)"
proof -
  from assms have "NumberToString (Fin p) = intToString p"
    by (rule NumberToString_safe)
  then show ?thesis
    by (simp add: unitText_def del: NumberToString.simps)
qed

lemma numberEnd_brace: "numberEnd 0x7D"
  by (simp add: numberEnd_def isDigit_def)

lemma quote_nonempty: "QuoteJSONString s \<noteq> []" "intToString p \<noteq> []"
  using intToString_head [of p] by (auto simp: QuoteJSONString_def)

lemma unit_keys:
  "setProperty (asc ''points'') c (setProperty (asc ''name'') b (setProperty (asc ''id'') a []))
     = [(asc ''id'', a), (asc ''name'', b), (asc ''points'', c)]"
  by (simp add: setProperty_def arrayIndex_def asc_def isDigit_def)

lemma parseValue_unit:
  assumes "\<bar>p\<bar> \<le> maxSafe"
  shows "parseValue (unitText i n p @ rest) =
     Some (Obj [(asc ''id'', Str i), (asc ''name'', Str n), (asc ''points'', Num (Fin p))], rest)"
proof -
  let ?m3 = "QuoteJSONString (asc ''points'') @ 0x3A # intToString p @ 0x7D # rest"
  let ?m2 = "QuoteJSONString (asc ''name'') @ 0x3A # QuoteJSONString n @ 0x2C # ?m3"
  let ?m1 = "QuoteJSONString (asc ''id'') @ 0x3A # QuoteJSONString i @ 0x2C # ?m2"
  have p3: "parseMembers acc ?m3 = Some (Obj (setProperty (asc ''points'') (Num (Fin p)) acc), rest)" for acc
    using parseMembers_member [of "intToString p" "0x7D" rest "Num (Fin p)" acc "asc ''points''",
        OF parseValue_int [OF numberEnd_brace assms] quote_nonempty(2)]
    by simp
  have p2: "parseMembers acc ?m2 = parseMembers (setProperty (asc ''name'') (Str n) acc) ?m3" for acc
    using parseMembers_member [of "QuoteJSONString n" "0x2C" ?m3 "Str n" acc "asc ''name''",
        OF parseValue_string quote_nonempty(1)]
    by simp
  have p1: "parseMembers acc ?m1 = parseMembers (setProperty (asc ''id'') (Str i) acc) ?m2" for acc
    using parseMembers_member [of "QuoteJSONString i" "0x2C" ?m2 "Str i" acc "asc ''id''",
        OF parseValue_string quote_nonempty(1)]
    by simp
  have open_brace: "parseValue (0x7B # ?m1) = parseMembers [] ?m1"
    by (subst parseValue.simps)
       (simp add: skipWs_nonws isJSONWhitespace_def QuoteJSONString_def)
  have "unitText i n p @ rest = 0x7B # ?m1"
    by (simp add: unitText_def)
  then show ?thesis
    by (simp only: open_brace p1 p2 p3 unit_keys)
qed

lemma rebuild_Cons: "rebuild acc ((k, v) # ps) = rebuild (setProperty k v acc) ps"
  by (simp add: rebuild_def)

lemma serializeMembers_unit:
  "storedUnit v \<Longrightarrow> \<exists>i n p. v = Obj [(asc ''id'', Str i), (asc ''name'', Str n), (asc ''points'', Num (Fin p))]
      \<and> \<bar>p\<bar> \<le> maxSafe
      \<and> serializeMembers ((k, v) # ps) = (QuoteJSONString k @ 0x3A # unitText i n p) # serializeMembers ps"
proof (erule storedUnitE)
  fix i n p
  assume v: "v = Obj [(asc ''id'', Str i), (asc ''name'', Str n), (asc ''points'', Num (Fin p))]"
    and safe: "\<bar>p\<bar> \<le> maxSafe"
  have "serializeMembers ((k, v) # ps) = (QuoteJSONString k @ 0x3A # unitText i n p) # serializeMembers ps"
    unfolding v using stringify_unit [OF safe, of i n]
    by (simp del: JSON_stringify.simps)
  with v safe show ?thesis by blast
qed

lemma unitText_nonempty: "unitText i n p \<noteq> []"
  by (simp add: unitText_def)

lemma parseMembers_units:
  assumes "ps \<noteq> []" and "list_all (\<lambda>(k, v). storedUnit v) ps"
  shows "parseMembers acc (joinComma (serializeMembers ps) @ 0x7D # rest) = Some (Obj (rebuild acc ps), rest)"
  using assms
proof (induction ps arbitrary: acc)
  case Nil
  then show ?case by simp
next
  case (Cons kv ps)
  obtain k v where kv: "kv = (k, v)" by (cases kv)
  with Cons.prems(2) have sv: "storedUnit v" and rest_units: "list_all (\<lambda>(k, v). storedUnit v) ps"
    by simp_all
  from serializeMembers_unit [OF sv, of k ps] obtain i n p where
    v: "v = Obj [(asc ''id'', Str i), (asc ''name'', Str n), (asc ''points'', Num (Fin p))]"
    and safe: "\<bar>p\<bar> \<le> maxSafe"
    and ser: "serializeMembers ((k, v) # ps) = (QuoteJSONString k @ 0x3A # unitText i n p) # serializeMembers ps"
    by blast
  show ?case
  proof (cases ps)
    case Nil
    have "parseMembers acc (QuoteJSONString k @ 0x3A # unitText i n p @ 0x7D # rest)
        = Some (Obj (setProperty k v acc), rest)"
      using parseMembers_member [of "unitText i n p" "0x7D" rest v acc k,
          OF _ unitText_nonempty] parseValue_unit [OF safe, of i n "0x7D # rest"] v
      by simp
    with Nil kv ser show ?thesis
      by (simp add: rebuild_def)
  next
    case (Cons kv2 ps2)
    obtain k2 v2 where kv2: "kv2 = (k2, v2)" by (cases kv2)
    with rest_units Cons have sv2: "storedUnit v2" by simp
    from serializeMembers_unit [OF sv2, of k2 ps2] obtain m ms where
      ms: "serializeMembers ps = m # ms"
      using Cons kv2 by blast
    let ?tail = "joinComma (serializeMembers ps) @ 0x7D # rest"
    have "parseMembers acc (QuoteJSONString k @ 0x3A # unitText i n p @ 0x2C # ?tail)
        = parseMembers (setProperty k v acc) ?tail"
      using parseMembers_member [of "unitText i n p" "0x2C" ?tail v acc k,
          OF _ unitText_nonempty] parseValue_unit [OF safe, of i n "0x2C # ?tail"] v
      by simp
    moreover have "parseMembers (setProperty k v acc) ?tail = Some (Obj (rebuild (setProperty k v acc) ps), rest)"
      using Cons.IH [OF _ rest_units] Cons by simp
    ultimately show ?thesis
      using kv ser ms by (simp add: rebuild_Cons)
  qed
qed

lemma parse_stringify_units:
  assumes "list_all (\<lambda>(k, v). storedUnit v) ps"
  shows "\<exists>t. JSON_stringify (Obj ps) = Some t \<and> t \<noteq> [] \<and> JSON_parse t = Inr (Obj (rebuild [] ps))"
proof (cases ps)
  case Nil
  have "parseValue [0x7B, 0x7D] = Some (Obj [], [])"
    by (subst parseValue.simps) (simp add: skipWs_def isJSONWhitespace_def)
  with Nil show ?thesis
    by (simp add: JSON_parse_def rebuild_def skipWs_def)
next
  case (Cons kv ps')
  obtain k v where kv: "kv = (k, v)" by (cases kv)
  with assms Cons have sv: "storedUnit v" by simp
  from serializeMembers_unit [OF sv, of k ps'] obtain m ms where
    ms: "serializeMembers ps = (0x22 # m) # ms"
    using Cons kv by (auto simp: QuoteJSONString_def)
  let ?body = "joinComma (serializeMembers ps) @ [0x7D]"
  obtain b where b: "?body = 0x22 # b"
    using ms by (cases ms) auto
  have ne: "ps \<noteq> []" using Cons by simp
  have "parseValue (0x7B # ?body) = parseMembers [] ?body"
    by (subst parseValue.simps) (simp add: b skipWs_nonws isJSONWhitespace_def)
  also have "\<dots> = Some (Obj (rebuild [] ps), [])"
    using parseMembers_units [OF ne assms, of "[]" "[]"] by simp
  finally show ?thesis
    by (simp add: JSON_parse_def skipWs_def)
qed

lemma map_of_rebuild:
  "distinct (map fst ps) \<Longrightarrow>
     map_of (rebuild acc ps) k = (case map_of ps k of Some v \<Rightarrow> Some v | None \<Rightarrow> map_of acc k)"
proof (induction ps arbitrary: acc)
  case Nil
  show ?case by (simp add: rebuild_def)
next
  case (Cons kv ps)
  obtain k1 v1 where kv: "kv = (k1, v1)" by (cases kv)
  from Cons.prems kv have d: "distinct (map fst ps)" and fresh: "k1 \<notin> fst ` set ps" by auto
  from fresh have none: "map_of ps k1 = None" by (simp add: map_of_eq_None_iff)
  show ?case
    unfolding kv rebuild_Cons Cons.IH [OF d]
    using none by (auto simp: map_of_setProperty split: option.splits)
qed

lemma favoriteUnit_stored: "fullCard c \<Longrightarrow> storedUnit (favoriteUnit c)"
  by (cases "parseInt (unitPoints c)")
     (auto simp: fullCard_def favoriteUnit_def optionalString_def)

lemma storedUnit_truthy: "storedUnit v \<Longrightarrow> truthy v"
  by (erule storedUnitE) simp

lemma unitsByKey_truthy: "unitsByKey ps \<Longrightarrow> \<forall>v \<in> snd ` set ps. truthy v"
proof
  fix v
  assume u: "unitsByKey ps" and "v \<in> snd ` set ps"
  then obtain k where "(k, v) \<in> set ps" by auto
  with u have "storedUnit v" by (auto simp: unitsByKey_def list_all_iff)
  then show "truthy v" by (rule storedUnit_truthy)
qed

lemma distinct_insertIndexKey:
  "k \<notin> fst ` set ps \<Longrightarrow> distinct (map fst ps) \<Longrightarrow> distinct (map fst (insertIndexKey i k v ps))"
proof (induction ps)
  case Nil
  show ?case by simp
next
  case (Cons p ps)
  then have "fst ` set (insertIndexKey i k v ps) = insert k (fst ` set ps)"
    by (simp add: set_insertIndexKey)
  with Cons show ?case
    by (cases p) (auto split: option.splits)
qed

lemma unitsByKey_setProperty:
  assumes "unitsByKey ps" and "k \<notin> fst ` set ps" and "storedUnit v"
  shows "unitsByKey (setProperty k v ps)"
proof -
  have "set (setProperty k v ps) = insert (k, v) (set ps)"
    using assms(2) by (auto simp: setProperty_def set_insertIndexKey split: option.splits)
  moreover have "distinct (map fst (setProperty k v ps))"
    using assms(1, 2) by (auto simp: setProperty_def unitsByKey_def distinct_insertIndexKey split: option.splits)
  ultimately show ?thesis
    using assms(1, 3) by (simp add: unitsByKey_def list_all_iff)
qed

lemma unitsByKey_deleteProperty: "unitsByKey ps \<Longrightarrow> unitsByKey (deleteProperty k ps)"
  by (simp add: unitsByKey_def deleteProperty_def list_all_iff distinct_map_filter)

lemma unitsByKey_toggleFavorite:
  assumes "unitsByKey ps" and "fullCard c"
  shows "unitsByKey (snd (toggleFavorite c ps))"
proof (cases "propertyTruthy ps (ToString_opt (unitId c))")
  case True
  then show ?thesis using unitsByKey_deleteProperty [OF assms(1)] by (simp add: toggleFavorite_def Let_def)
next
  case False
  then have "ToString_opt (unitId c) \<notin> fst ` set ps"
    using propertyTruthy_own [OF unitsByKey_truthy [OF assms(1)]] by blast
  from unitsByKey_setProperty [OF assms(1) this favoriteUnit_stored [OF assms(2)]] False
  show ?thesis by (simp add: toggleFavorite_def Let_def)
qed

lemma favoriteClicks_saved:
  assumes "favorites st = Obj ps" and "unitsByKey ps" and "\<forall>c \<in> set cs. fullCard c" and "cs \<noteq> []"
  shows "\<exists>ps'. favorites (run (map FavoriteClick cs) st) = Obj ps' \<and> unitsByKey ps'
           \<and> localStorage (run (map FavoriteClick cs) st) favoritesKey = JSON_stringify (Obj ps')"
  using assms
proof (induction cs arbitrary: st ps)
  case Nil
  then show ?case by simp
next
  case (Cons c cs)
  let ?ps1 = "snd (toggleFavorite c ps)"
  let ?st1 = "snd (favoriteClick c st)"
  have f1: "favorites ?st1 = Obj ?ps1"
    and s1: "localStorage ?st1 favoritesKey = JSON_stringify (Obj ?ps1)"
    using Cons.prems(1) by (simp_all add: favoriteClick_def saveFavorites_def ToString_opt_def)
  have u1: "unitsByKey ?ps1"
    using unitsByKey_toggleFavorite [OF Cons.prems(2)] Cons.prems(3) by simp
  show ?case
  proof (cases "cs = []")
    case True
    with f1 s1 u1 show ?thesis by simp
  next
    case False
    from Cons.IH [OF f1 u1 _ False] Cons.prems(3) show ?thesis by simp
  qed
qed

text \<open>
  Where every clicked card carries an id, a name and a points text that parses to a
  safe integer, the favorites that a session saved are the favorites the next session
  loads: the same keys with the same units.
\<close>

lemma favorites_round_trip:
  assumes "\<forall>c \<in> set cs. fullCard c" and "cs \<noteq> []"
  shows "\<exists>ps ps'. favorites (run (map FavoriteClick cs) (initialState storage)) = Obj ps
           \<and> favorites (loadFavorites (initialState
                 (localStorage (run (map FavoriteClick cs) (initialState storage))))) = Obj ps'
           \<and> map_of ps' = map_of ps"
proof -
  let ?st = "run (map FavoriteClick cs) (initialState storage)"
  have "favorites (initialState storage) = Obj []" "unitsByKey []"
    by (simp_all add: initialState_def unitsByKey_def)
  from favoriteClicks_saved [OF this assms] obtain ps where
    ps: "favorites ?st = Obj ps" "unitsByKey ps" "localStorage ?st favoritesKey = JSON_stringify (Obj ps)"
    by blast
  from ps(2) have units: "list_all (\<lambda>(k, v). storedUnit v) ps" and d: "distinct (map fst ps)"
    by (simp_all add: unitsByKey_def)
  from parse_stringify_units [OF units] obtain t where
    t: "JSON_stringify (Obj ps) = Some t" "t \<noteq> []" "JSON_parse t = Inr (Obj (rebuild [] ps))"
    by blast
  have "favorites (loadFavorites (initialState (localStorage ?st))) = Obj (rebuild [] ps)"
    using ps(3) t by (simp add: loadFavorites_def initialState_def)
  moreover have "map_of (rebuild [] ps) = map_of ps"
  proof
    fix k
    show "map_of (rebuild [] ps) k = map_of ps k"
      using map_of_rebuild [OF d, of "[]" k] by (simp split: option.splits)
  qed
  ultimately show ?thesis using ps(1) by blast
qed

lemma favorites_round_trip_example:
  "(let cs = [unitCardOf ''u1'' ''Intercessor Squad'' ''100'', unitCardOf ''u2'' ''Redemptor Dreadnought'' ''180''];
        st = run (map FavoriteClick cs) (initialState Map.empty)
    in (\<forall>c \<in> set cs. fullCard c) \<and> cs \<noteq> []
     \<and> (\<exists>ps ps'. favorites st = Obj ps
           \<and> favorites (loadFavorites (initialState (localStorage st))) = Obj ps'
           \<and> map_of ps' = map_of ps))"
  using favorites_round_trip [of "[unitCardOf ''u1'' ''Intercessor Squad'' ''100'',
      unitCardOf ''u2'' ''Redemptor Dreadnought'' ''180'']" Map.empty]
  by (simp add: Let_def fullCard_def unitCardOf_def parseInt_100 parseInt_180 maxSafe_def)

end
